theory Spec2Isabelle
  imports Main
begin

section \<open>Data model\<close>

text \<open>
  The \<^verbatim>\<open>Snippet\<close> interface. Optional properties are options: \<open>None\<close> is a property that
  is absent (\<^verbatim>\<open>undefined\<close>). The property \<^verbatim>\<open>id\<close> is named \<open>snippet_id\<close> here, since
  \<open>id\<close> is the identity function of HOL. Strings are lists of bytes (UTF-8).
\<close>

record snippet =
  snippet_id :: "string option"
  title :: string
  description :: string
  code :: string
  language :: string
  tags :: "string list option"
  createdAt :: string
  updatedAt :: "string option"

text \<open>
  The source never compares an id with \<^verbatim>\<open>undefined\<close>: it tests its truthiness
  (\<^verbatim>\<open>!s.id\<close>, \<^verbatim>\<open>useAPI && selected.snippet.id\<close>). A string is falsy when it is empty, so an
  optional string is truthy when it is present and not empty.
\<close>

definition truthy :: "string option \<Rightarrow> bool" where
  "truthy v = (case v of None \<Rightarrow> False | Some s \<Rightarrow> s \<noteq> [])"

text \<open>Errors are values. Every rejection in the source carries a JavaScript \<^verbatim>\<open>Error\<close>
  with a message; there is no subclass for a cause.\<close>

datatype js_error = Error string

section \<open>The request wrapper\<close>

datatype header_value = HStr string | HNum nat

record request_options =
  hostname :: string
  port :: string
  protocol :: string
  path :: string
  http_method :: string
  headers :: "(string \<times> header_value) list"

text \<open>
  What the transport (\<^verbatim>\<open>https.request\<close> or \<^verbatim>\<open>http.request\<close>) delivers to the callbacks
  that \<^verbatim>\<open>makeRequest\<close> installs: an \<^verbatim>\<open>error\<close> event on the request, or the \<^verbatim>\<open>end\<close> of a
  response with its \<^verbatim>\<open>statusCode\<close> (which Node types as optional) and the concatenation
  of its \<^verbatim>\<open>data\<close> chunks. An exception that the request function throws at once rejects
  the promise as an \<^verbatim>\<open>error\<close> event does, so it is a \<open>RequestError\<close> too. A promise settles
  once, so there is one outcome for a request; a request that never settles is outside
  the model.
\<close>

datatype transport_outcome =
  RequestError js_error
| End "int option" string

text \<open>The value a request resolves to: \<^verbatim>\<open>null\<close>, the result of \<^verbatim>\<open>JSON.parse\<close>, or the
  raw response text. \<open>'j\<close> is the type of parsed JSON values.\<close>

datatype 'j resolved = Null | Parsed 'j | Text string

text \<open>
  The library functions and the network are parameters of the model. The remote service
  has a state \<open>'s\<close>, which a request may change. \<open>JSON_parse\<close> returns \<open>None\<close> where
  \<^verbatim>\<open>JSON.parse\<close> throws. \<open>as_Snippet\<close> is the unchecked view of a resolved value at the
  declared type \<^verbatim>\<open>Promise<Snippet>\<close>: TypeScript returns the \<^verbatim>\<open>any\<close> of \<^verbatim>\<open>makeRequest\<close>
  as a \<^verbatim>\<open>Snippet\<close> without a test. \<open>encodeURIComponent\<close> is taken on well-formed strings,
  where it returns.
\<close>

record ('s, 'j) env =
  https_request :: "'s \<Rightarrow> request_options \<Rightarrow> string option \<Rightarrow> transport_outcome \<times> 's"
  http_request :: "'s \<Rightarrow> request_options \<Rightarrow> string option \<Rightarrow> transport_outcome \<times> 's"
  JSON_parse :: "string \<Rightarrow> 'j option"
  JSON_stringify :: "snippet \<Rightarrow> string"
  encodeURIComponent :: "string \<Rightarrow> string"
  String_trim :: "string \<Rightarrow> string"
  as_Snippet :: "'j resolved \<Rightarrow> snippet"

text \<open>Template literals print a number in decimal and a missing value as \<^verbatim>\<open>undefined\<close>.\<close>

fun show_nat :: "nat \<Rightarrow> string" where
  "show_nat n =
     (if n < 10 then [char_of (48 + n)]
      else show_nat (n div 10) @ [char_of (48 + n mod 10)])"

definition show_status :: "int option \<Rightarrow> string" where
  "show_status statusCode =
     (case statusCode of
        None \<Rightarrow> ''undefined''
      | Some c \<Rightarrow> if c < 0 then ''-'' @ show_nat (nat (- c)) else show_nat (nat c))"

text \<open>\<^verbatim>\<open>res.statusCode && res.statusCode >= 200 && res.statusCode < 300\<close>\<close>

definition success_status :: "int option \<Rightarrow> bool" where
  "success_status statusCode =
     (case statusCode of None \<Rightarrow> False | Some c \<Rightarrow> c \<noteq> 0 \<and> 200 \<le> c \<and> c < 300)"

text \<open>
  \<^verbatim>\<open>makeRequest(options, data)\<close>. \<open>send\<close> is the request going out: the module is chosen
  by the protocol, and the body is written only when \<^verbatim>\<open>data\<close> is truthy. The result of
  \<open>makeRequest\<close> is \<open>Inl\<close> for a rejected promise and \<open>Inr\<close> for a resolved one, with the
  state of the remote service after the request.
\<close>

definition send ::
  "('s, 'j) env \<Rightarrow> request_options \<Rightarrow> string option \<Rightarrow> 's \<Rightarrow> transport_outcome \<times> 's"
where
  "send env options data s =
     (let request = (if protocol options = ''https:'' then https_request env
                     else http_request env);
          written = (if truthy data then data else None)
      in request s options written)"

definition makeRequest ::
  "('s, 'j) env \<Rightarrow> request_options \<Rightarrow> string option \<Rightarrow> 's \<Rightarrow> (js_error + 'j resolved) \<times> 's"
where
  "makeRequest env options data s =
     (let (outcome, s') = send env options data s
      in (case outcome of
            RequestError e \<Rightarrow> Inl e
          | End statusCode responseData \<Rightarrow>
              if success_status statusCode then
                (if responseData \<noteq> [] then
                   (case JSON_parse env responseData of
                      Some json \<Rightarrow> Inr (Parsed json)
                    | None \<Rightarrow> Inr (Text responseData))
                 else Inr Null)
              else Inl (Error (''Request failed with status '' @ show_status statusCode
                                 @ '': '' @ responseData)),
          s'))"

declare show_nat.simps [simp del]

section \<open>The world the extension runs in\<close>

text \<open>
  The state the commands read and change: the host's \<^verbatim>\<open>globalState\<close> memento (a keyed
  store), the remote service, the console and the messages shown in the window. Two
  fields are traces kept for the statements about effects: \<open>updates\<close> lists the calls of
  \<^verbatim>\<open>globalState.update\<close> and \<open>apiLog\<close> the calls of the methods of \<^verbatim>\<open>SnippetlyAPI\<close>, each
  with its outcome, in the order they were made.
\<close>

datatype api_event =
  SaveSnippet snippet "js_error + snippet"
| SearchSnippets "string option" "js_error option"
| DeleteSnippet string "js_error option"

datatype console_line = ConsoleError "string list" js_error

datatype notification =
  InformationMessage string
| WarningMessage string
| ErrorMessage string

record 's world =
  globalState :: "string \<rightharpoonup> snippet list"
  updates :: "(string \<times> snippet list) list"
  server :: 's
  apiLog :: "api_event list"
  console :: "console_line list"
  messages :: "notification list"

definition console_error :: "string list \<Rightarrow> js_error \<Rightarrow> 's world \<Rightarrow> 's world" where
  "console_error args error w = w\<lparr>console := console w @ [ConsoleError args error]\<rparr>"

definition showMessage :: "notification \<Rightarrow> 's world \<Rightarrow> 's world" where
  "showMessage m w = w\<lparr>messages := messages w @ [m]\<rparr>"

section \<open>The remote client\<close>

text \<open>\<^verbatim>\<open>SnippetlyAPI\<close>: the configured endpoint, already parsed by \<^verbatim>\<open>new URL\<close>, and the
  optional key.\<close>

record SnippetlyAPI =
  apiUrl :: string
  apiKey :: "string option"
  parsedUrl_hostname :: string
  parsedUrl_port :: string
  parsedUrl_protocol :: string

definition getRequestOptions :: "SnippetlyAPI \<Rightarrow> string \<Rightarrow> string \<Rightarrow> request_options" where
  "getRequestOptions api p m =
     \<lparr>hostname = parsedUrl_hostname api,
      port = parsedUrl_port api,
      protocol = parsedUrl_protocol api,
      path = p,
      http_method = m,
      headers = (''Content-Type'', HStr ''application/json'') #
        (if truthy (apiKey api)
         then [(''Authorization'', HStr (''Bearer '' @ the (apiKey api)))] else [])\<rparr>"

text \<open>Each method logs a failure on the console and throws it again.\<close>

definition saveSnippet ::
  "('s, 'j) env \<Rightarrow> SnippetlyAPI \<Rightarrow> snippet \<Rightarrow> 's world \<Rightarrow> (js_error + snippet) \<times> 's world"
where
  "saveSnippet env api snippet w =
     (let options = getRequestOptions api ''/snippets'' ''POST'';
          data = JSON_stringify env snippet;
          options = options\<lparr>headers := headers options @
                      [(''Content-Length'', HNum (length data))]\<rparr>;
          (r, s') = makeRequest env options (Some data) (server w)
      in (case r of
            Inr v \<Rightarrow>
              (Inr (as_Snippet env v),
               w\<lparr>server := s',
                 apiLog := apiLog w @ [SaveSnippet snippet (Inr (as_Snippet env v))]\<rparr>)
          | Inl error \<Rightarrow>
              (Inl error,
               console_error [''API Error:''] error
                 (w\<lparr>server := s',
                    apiLog := apiLog w @ [SaveSnippet snippet (Inl error)]\<rparr>))))"

definition searchPath :: "('s, 'j) env \<Rightarrow> string option \<Rightarrow> string" where
  "searchPath env query =
     (if truthy query then ''/snippets/search?q='' @ encodeURIComponent env (the query)
      else ''/snippets'')"

definition searchSnippets ::
  "('s, 'j) env \<Rightarrow> SnippetlyAPI \<Rightarrow> string option \<Rightarrow> 's world
     \<Rightarrow> (js_error + 'j resolved) \<times> 's world"
where
  "searchSnippets env api query w =
     (let options = getRequestOptions api (searchPath env query) ''GET'';
          (r, s') = makeRequest env options None (server w)
      in (case r of
            Inr v \<Rightarrow>
              (Inr v, w\<lparr>server := s', apiLog := apiLog w @ [SearchSnippets query None]\<rparr>)
          | Inl error \<Rightarrow>
              (Inl error,
               console_error [''API Error:''] error
                 (w\<lparr>server := s',
                    apiLog := apiLog w @ [SearchSnippets query (Some error)]\<rparr>))))"

definition deleteSnippet ::
  "('s, 'j) env \<Rightarrow> SnippetlyAPI \<Rightarrow> string \<Rightarrow> 's world \<Rightarrow> (js_error + unit) \<times> 's world"
where
  "deleteSnippet env api i w =
     (let options = getRequestOptions api (''/snippets/'' @ i) ''DELETE'';
          (r, s') = makeRequest env options None (server w)
      in (case r of
            Inr v \<Rightarrow>
              (Inr (), w\<lparr>server := s', apiLog := apiLog w @ [DeleteSnippet i None]\<rparr>)
          | Inl error \<Rightarrow>
              (Inl error,
               console_error [''API Error:''] error
                 (w\<lparr>server := s',
                    apiLog := apiLog w @ [DeleteSnippet i (Some error)]\<rparr>))))"

section \<open>The storage service\<close>

text \<open>
  \<^verbatim>\<open>globalState.get("snippets", [])\<close> and \<^verbatim>\<open>globalState.update(key, value)\<close>. The memento
  is taken to store what it is given: an update does not fail.
\<close>

definition getLocalSnippets :: "'s world \<Rightarrow> snippet list" where
  "getLocalSnippets w = (case globalState w ''snippets'' of None \<Rightarrow> [] | Some xs \<Rightarrow> xs)"

definition update_globalState :: "string \<Rightarrow> snippet list \<Rightarrow> 's world \<Rightarrow> 's world" where
  "update_globalState key v w =
     w\<lparr>globalState := (globalState w)(key \<mapsto> v), updates := updates w @ [(key, v)]\<rparr>"

definition saveLocally :: "snippet \<Rightarrow> 's world \<Rightarrow> 's world" where
  "saveLocally snippet w =
     (let snippets = getLocalSnippets w
      in update_globalState ''snippets'' (snippets @ [snippet]) w)"

text \<open>
  \<^verbatim>\<open>syncWithAPI\<close> finds the slot of a snippet with \<^verbatim>\<open>indexOf\<close>, which compares objects by
  identity, not by content. So the array is modelled as a list of objects, each a
  reference with the snippet it holds. The elements of the array that the memento
  returns are pairwise different objects, as are the objects that \<^verbatim>\<open>JSON.parse\<close> makes
  for the responses: the element at position \<open>i\<close> has the reference \<open>Stored i\<close>, and the
  response to the snippet with the reference \<open>Stored i\<close> has the reference \<open>Response i\<close>.
\<close>

datatype ref = Stored nat | Response nat

type_synonym obj = "ref \<times> snippet"

definition objects :: "snippet list \<Rightarrow> obj list" where
  "objects xs = zip (map Stored [0..<length xs]) xs"

text \<open>\<^verbatim>\<open>Array.prototype.indexOf\<close> on objects: the first position that holds the same
  reference; \<open>None\<close> is the result \<^verbatim>\<open>-1\<close>.\<close>

fun indexOf :: "obj list \<Rightarrow> obj \<Rightarrow> nat option" where
  "indexOf [] x = None"
| "indexOf (y # ys) x =
     (if fst y = fst x then Some 0 else map_option Suc (indexOf ys x))"

text \<open>\<^verbatim>\<open>array[index] = value\<close>. At index \<^verbatim>\<open>-1\<close> the assignment sets a property named
  \<^verbatim>\<open>"-1"\<close> and changes no element.\<close>

definition array_set :: "obj list \<Rightarrow> nat option \<Rightarrow> obj \<Rightarrow> obj list" where
  "array_set a index v = (case index of None \<Rightarrow> a | Some i \<Rightarrow> a[i := v])"

definition response_object :: "obj \<Rightarrow> snippet \<Rightarrow> obj" where
  "response_object snippet saved =
     (case fst snippet of Stored i \<Rightarrow> (Response i, saved) | Response i \<Rightarrow> (Response i, saved))"

text \<open>The loop \<^verbatim>\<open>for (const snippet of unsyncedSnippets)\<close>, over the array
  \<^verbatim>\<open>localSnippets\<close> that it changes in place.\<close>

fun sync_loop ::
  "('s, 'j) env \<Rightarrow> SnippetlyAPI \<Rightarrow> obj list \<Rightarrow> obj list \<Rightarrow> 's world \<Rightarrow> obj list \<times> 's world"
where
  "sync_loop env api [] localSnippets w = (localSnippets, w)"
| "sync_loop env api (snippet # rest) localSnippets w =
     (case saveSnippet env api (snd snippet) w of
        (Inr saved, w') \<Rightarrow>
          (let index = indexOf localSnippets snippet
           in sync_loop env api rest
                (array_set localSnippets index (response_object snippet saved)) w')
      | (Inl error, w') \<Rightarrow>
          sync_loop env api rest localSnippets
            (console_error [''Failed to sync snippet:'', title (snd snippet)] error w'))"

definition syncWithAPI :: "('s, 'j) env \<Rightarrow> SnippetlyAPI \<Rightarrow> 's world \<Rightarrow> 's world" where
  "syncWithAPI env api w =
     (let localSnippets = objects (getLocalSnippets w);
          unsyncedSnippets = filter (\<lambda>s. \<not> truthy (snippet_id (snd s))) localSnippets;
          (localSnippets, w') = sync_loop env api unsyncedSnippets localSnippets w
      in update_globalState ''snippets'' (map snd localSnippets) w')"

section \<open>The commands\<close>

text \<open>What the host hands to one run of the save command: the active editor with the
  text of its selection, the answers to the three input boxes (\<open>None\<close> for a dismissed
  box) and the time, as \<^verbatim>\<open>new Date().toISOString()\<close> prints it.\<close>

record editor =
  selectedText :: string
  languageId :: string

record save_ui =
  activeTextEditor :: "editor option"
  titleInput :: "string option"
  descriptionInput :: "string option"
  tagsInput :: "string option"
  now :: string

text \<open>\<^verbatim>\<open>String.prototype.split\<close> with a separator of one character.\<close>

fun split :: "char \<Rightarrow> string \<Rightarrow> string list" where
  "split c [] = [[]]"
| "split c (x # xs) =
     (if x = c then [] # split c xs
      else (case split c xs of [] \<Rightarrow> [[x]] | p # ps \<Rightarrow> (x # p) # ps))"

definition parseTags :: "('s, 'j) env \<Rightarrow> string option \<Rightarrow> string list" where
  "parseTags env input =
     (if truthy input
      then filter (\<lambda>tag. length tag > 0)
             (map (String_trim env) (split CHR '','' (the input)))
      else [])"

text \<open>The object literal of the save command. It has no \<^verbatim>\<open>id\<close> and no \<^verbatim>\<open>updatedAt\<close>.\<close>

definition newSnippet :: "('s, 'j) env \<Rightarrow> editor \<Rightarrow> string \<Rightarrow> save_ui \<Rightarrow> snippet" where
  "newSnippet env ed t ui =
     \<lparr>snippet_id = None,
      title = t,
      description = (if truthy (descriptionInput ui) then the (descriptionInput ui) else []),
      code = selectedText ed,
      language = languageId ed,
      tags = Some (parseTags env (tagsInput ui)),
      createdAt = now ui,
      updatedAt = None\<rparr>"

definition check_mark :: string where
  "check_mark = [CHR 0xE2, CHR 0x9C, CHR 0x85]"

text \<open>The \<^verbatim>\<open>try\<close> block of the save command: \<open>Inl\<close> is the error it throws, with the world
  at that moment.\<close>

definition save_try ::
  "('s, 'j) env \<Rightarrow> SnippetlyAPI \<Rightarrow> bool \<Rightarrow> snippet \<Rightarrow> 's world \<Rightarrow> (js_error + unit) \<times> 's world"
where
  "save_try env api useAPI snippet w =
     (if useAPI then
        (case saveSnippet env api snippet w of
           (Inl error, w') \<Rightarrow> (Inl error, w')
         | (Inr savedSnippet, w') \<Rightarrow>
             (Inr (),
              showMessage
                (InformationMessage (check_mark @ '' Saved to Snippetly: '' @ title snippet))
                (saveLocally savedSnippet w')))
      else
        (Inr (),
         showMessage (InformationMessage (check_mark @ '' Saved locally: '' @ title snippet))
           (saveLocally snippet w)))"

definition saveCommand ::
  "('s, 'j) env \<Rightarrow> SnippetlyAPI \<Rightarrow> bool \<Rightarrow> save_ui \<Rightarrow> 's world \<Rightarrow> 's world"
where
  "saveCommand env api useAPI ui w =
     (case activeTextEditor ui of
        None \<Rightarrow> showMessage (ErrorMessage ''No code editor is open'') w
      | Some ed \<Rightarrow>
          if selectedText ed = [] then
            showMessage (ErrorMessage ''Please select some code first'') w
          else if \<not> truthy (titleInput ui) then w
          else
            (let snippet = newSnippet env ed (the (titleInput ui)) ui
             in (case save_try env api useAPI snippet w of
                   (Inr u, w') \<Rightarrow> w'
                 | (Inl error, w') \<Rightarrow>
                     showMessage
                       (WarningMessage
                          (''Saved locally (API unavailable): '' @ title snippet))
                       (saveLocally snippet w'))))"

text \<open>What the host hands to one run of the delete command: the position of the item
  picked in the list (\<open>None\<close> when the list is dismissed; the host returns one of the items
  it was given) and the button pressed in the confirmation.\<close>

record delete_ui =
  quickPick :: "nat option"
  confirm :: "string option"

text \<open>\<^verbatim>\<open>array.splice(index, 1)\<close>. At index \<^verbatim>\<open>-1\<close> it removes the last element.\<close>

definition splice1 :: "obj list \<Rightarrow> nat option \<Rightarrow> obj list" where
  "splice1 a index =
     (case index of None \<Rightarrow> butlast a | Some i \<Rightarrow> take i a @ drop (Suc i) a)"

definition deleteCommand ::
  "('s, 'j) env \<Rightarrow> SnippetlyAPI \<Rightarrow> bool \<Rightarrow> delete_ui \<Rightarrow> 's world \<Rightarrow> 's world"
where
  "deleteCommand env api useAPI ui w =
     (let snippets = objects (getLocalSnippets w)
      in if length snippets = 0 then
           showMessage (InformationMessage ''No snippets to delete'') w
         else
           (case quickPick ui of
              None \<Rightarrow> w
            | Some k \<Rightarrow>
                if length snippets \<le> k then w
                else
                  (let selected = snippets ! k;
                       w1 = showMessage
                              (WarningMessage
                                 (''Delete '' @ [CHR 0x22] @ title (snd selected)
                                    @ [CHR 0x22] @ ''?'')) w
                   in if confirm ui = Some ''Delete'' then
                        (let index = indexOf snippets selected;
                             snippets = splice1 snippets index;
                             w2 = update_globalState ''snippets'' (map snd snippets) w1;
                             w3 = (if useAPI \<and> truthy (snippet_id (snd selected)) then
                                     (case deleteSnippet env api
                                             (the (snippet_id (snd selected))) w2 of
                                        (Inl error, w') \<Rightarrow>
                                          console_error [''Failed to delete from API:'']
                                            error w'
                                      | (Inr u, w') \<Rightarrow> w')
                                   else w2)
                         in showMessage
                              (InformationMessage (''Deleted: '' @ title (snd selected))) w3)
                      else w1)))"

section \<open>Notions for the statements and the proofs\<close>

text \<open>A snippet is pending when the filter of \<^verbatim>\<open>syncWithAPI\<close> selects it: \<^verbatim>\<open>!s.id\<close>.\<close>

definition pending :: "snippet \<Rightarrow> bool" where
  "pending s = (\<not> truthy (snippet_id s))"

text \<open>The positions of the pending snippets in a sequence, in ascending order.\<close>

definition pending_positions :: "snippet list \<Rightarrow> nat list" where
  "pending_positions xs = filter (\<lambda>i. pending (xs ! i)) [0..<length xs]"

text \<open>The snippets of a trace whose \<^verbatim>\<open>saveSnippet\<close> call failed, in the order of the calls.\<close>

fun failed_creates :: "api_event list \<Rightarrow> snippet list" where
  "failed_creates [] = []"
| "failed_creates (SaveSnippet s (Inl e) # evs) = s # failed_creates evs"
| "failed_creates (ev # evs) = failed_creates evs"

text \<open>
  The reconciliation as the specification words it: walk the sequence in order; a
  snippet with an id keeps its slot; a pending snippet takes the next outcome of the
  remote client, and its slot holds the returned representation on success and stays as
  it is on failure. \<open>rs\<close> lists the outcomes, one for each pending snippet.
\<close>

fun reconcile :: "snippet list \<Rightarrow> (js_error + snippet) list \<Rightarrow> snippet list" where
  "reconcile [] rs = []"
| "reconcile (x # xs) rs =
     (if pending x then
        (case rs of
           [] \<Rightarrow> x # xs
         | r # rs' \<Rightarrow> (case r of Inr saved \<Rightarrow> saved | Inl e \<Rightarrow> x) # reconcile xs rs')
      else x # reconcile xs rs)"

text \<open>
  Three devices of the proofs. \<open>creates\<close> is the loop of \<^verbatim>\<open>syncWithAPI\<close> without the array:
  the calls it makes, with their outcomes. \<open>apply_results\<close> writes outcomes into the array
  by position and \<open>apply_values\<close> does the same on the snippets alone. An array is
  \<open>coherent\<close> when the object at each position is the one read from the memento there or
  the response that replaced it.
\<close>

fun creates ::
  "('s, 'j) env \<Rightarrow> SnippetlyAPI \<Rightarrow> snippet list \<Rightarrow> 's world \<Rightarrow> (js_error + snippet) list \<times> 's world"
where
  "creates env api [] w = ([], w)"
| "creates env api (s # ss) w =
     (case saveSnippet env api s w of
        (Inr saved, w') \<Rightarrow>
          (case creates env api ss w' of (rs, w'') \<Rightarrow> (Inr saved # rs, w''))
      | (Inl error, w') \<Rightarrow>
          (case creates env api ss
                  (console_error [''Failed to sync snippet:'', title s] error w') of
             (rs, w'') \<Rightarrow> (Inl error # rs, w'')))"

fun apply_results :: "obj list \<Rightarrow> (nat \<times> (js_error + snippet)) list \<Rightarrow> obj list" where
  "apply_results a [] = a"
| "apply_results a ((i, r) # rest) =
     apply_results (case r of Inr saved \<Rightarrow> a[i := (Response i, saved)] | Inl e \<Rightarrow> a) rest"

fun apply_values :: "snippet list \<Rightarrow> (nat \<times> (js_error + snippet)) list \<Rightarrow> snippet list" where
  "apply_values xs [] = xs"
| "apply_values xs ((i, r) # rest) =
     apply_values (case r of Inr saved \<Rightarrow> xs[i := saved] | Inl e \<Rightarrow> xs) rest"

definition coherent :: "obj list \<Rightarrow> bool" where
  "coherent a = (\<forall>j < length a. fst (a ! j) = Stored j \<or> fst (a ! j) = Response j)"

section \<open>A small instance\<close>

text \<open>
  An instance to run the model on. The remote service counts the requests it has seen;
  request number \<open>n\<close> fails in the transport when \<open>fails n\<close>, and is answered with
  status 201 and the request body otherwise. A snippet is serialised as its title, and a
  response body \<open>t\<close> parses to the snippet with the title \<open>t\<close> and the id \<open>mkid t\<close>.
  Of the characters of a query only the space is escaped.
\<close>

definition demo_snippet :: "string option \<Rightarrow> string \<Rightarrow> snippet" where
  "demo_snippet i t =
     \<lparr>snippet_id = i, title = t, description = [], code = [], language = ''ts'',
      tags = None, createdAt = [], updatedAt = None\<rparr>"

definition demo_request ::
  "(nat \<Rightarrow> bool) \<Rightarrow> nat \<Rightarrow> request_options \<Rightarrow> string option \<Rightarrow> transport_outcome \<times> nat"
where
  "demo_request fails n options written =
     (if fails n then RequestError (Error ''ECONNREFUSED'')
      else End (Some 201) (case written of None \<Rightarrow> [] | Some d \<Rightarrow> d),
      Suc n)"

definition demo_env :: "(string \<Rightarrow> string) \<Rightarrow> (nat \<Rightarrow> bool) \<Rightarrow> (nat, snippet) env" where
  "demo_env mkid fails =
     \<lparr>https_request = demo_request fails,
      http_request = demo_request fails,
      JSON_parse = (\<lambda>body. Some (demo_snippet (Some (mkid body)) body)),
      JSON_stringify = title,
      encodeURIComponent = (\<lambda>q. concat (map (\<lambda>c. if c = CHR '' '' then ''%20'' else [c]) q)),
      String_trim = (\<lambda>t. t),
      as_Snippet = (\<lambda>v. case v of Parsed s \<Rightarrow> s | Null \<Rightarrow> demo_snippet None []
                          | Text t \<Rightarrow> demo_snippet None [])\<rparr>"

definition demo_api :: SnippetlyAPI where
  "demo_api =
     \<lparr>apiUrl = ''http://localhost:3000/api'', apiKey = None,
      parsedUrl_hostname = ''localhost'', parsedUrl_port = ''3000'',
      parsedUrl_protocol = ''http:''\<rparr>"

definition demo_world :: "snippet list \<Rightarrow> nat world" where
  "demo_world xs =
     \<lparr>globalState = [''snippets'' \<mapsto> xs], updates = [], server = 0, apiLog = [],
      console = [], messages = []\<rparr>"

text \<open>One run of the save command: the selection \<open>for(...)\<close> of a TypeScript file, saved under
  the title \<open>Loop\<close> with two tags.\<close>

definition demo_ui :: save_ui where
  "demo_ui =
     \<lparr>activeTextEditor = Some \<lparr>selectedText = ''for(...)'', languageId = ''ts''\<rparr>,
      titleInput = Some ''Loop'', descriptionInput = None, tagsInput = Some ''loop,ts'',
      now = ''2024-01-01T00:00:00.000Z''\<rparr>"

text \<open>One run of the delete command: the first item is picked and the deletion confirmed.\<close>

definition demo_delete_ui :: delete_ui where
  "demo_delete_ui = \<lparr>quickPick = Some 0, confirm = Some ''Delete''\<rparr>"

section \<open>Facts about the model\<close>

lemma indexOf_Some:
  "i < length a \<Longrightarrow> fst (a ! i) = fst x \<Longrightarrow> \<forall>j < i. fst (a ! j) \<noteq> fst x \<Longrightarrow>
   indexOf a x = Some i"
proof (induction a arbitrary: i)
  case Nil
  then show ?case by simp
next
  case (Cons y ys)
  show ?case
  proof (cases i)
    case 0
    with Cons.prems show ?thesis by simp
  next
    case (Suc k)
    with Cons.prems have "fst y \<noteq> fst x" by auto
    moreover from Cons.prems Suc have "indexOf ys x = Some k"
      by (intro Cons.IH) auto
    ultimately show ?thesis using Suc by simp
  qed
qed

lemma indexOf_coherent:
  assumes "coherent a" "i < length a" "fst (a ! i) = Stored i"
  shows "indexOf a (Stored i, s) = Some i"
proof (rule indexOf_Some)
  show "i < length a" by fact
  show "fst (a ! i) = fst (Stored i, s)" using assms by simp
  show "\<forall>j<i. fst (a ! j) \<noteq> fst (Stored i, s)"
  proof (intro allI impI)
    fix j assume "j < i"
    with assms have "fst (a ! j) = Stored j \<or> fst (a ! j) = Response j"
      by (simp add: coherent_def)
    with \<open>j < i\<close> show "fst (a ! j) \<noteq> fst (Stored i, s)" by auto
  qed
qed

lemma coherent_update:
  "coherent a \<Longrightarrow> coherent (a[i := (Response i, v)])"
  unfolding coherent_def
proof (intro allI impI)
  fix j assume c: "\<forall>j<length a. fst (a ! j) = Stored j \<or> fst (a ! j) = Response j"
    and j: "j < length (a[i := (Response i, v)])"
  show "fst (a[i := (Response i, v)] ! j) = Stored j \<or> fst (a[i := (Response i, v)] ! j) = Response j"
  proof (cases "j = i")
    case True
    with j show ?thesis by simp
  next
    case False
    with c j show ?thesis by simp
  qed
qed

lemma objects_map: "objects xs = map (\<lambda>i. (Stored i, xs ! i)) [0..<length xs]"
  by (rule nth_equalityI) (simp_all add: objects_def)

lemma coherent_objects: "coherent (objects xs)"
  by (simp add: coherent_def objects_map)

lemma sync_loop_eq:
  "distinct ps \<Longrightarrow> \<forall>i\<in>set ps. i < length a \<and> fst (a ! i) = Stored i \<Longrightarrow> coherent a \<Longrightarrow>
   sync_loop env api (map (\<lambda>i. (Stored i, f i)) ps) a w =
     (apply_results a (zip ps (fst (creates env api (map f ps) w))),
      snd (creates env api (map f ps) w))"
proof (induction ps arbitrary: a w)
  case Nil
  then show ?case by simp
next
  case (Cons i ps)
  obtain r w' where sv: "saveSnippet env api (f i) w = (r, w')" by (cases "saveSnippet env api (f i) w")
  have idx: "indexOf a (Stored i, f i) = Some i"
    using Cons.prems by (intro indexOf_coherent) auto
  show ?case
  proof (cases r)
    case (Inl e)
    then show ?thesis using sv Cons.IH[of a] Cons.prems
      by (simp split: prod.splits)
  next
    case (Inr saved)
    let ?a = "a[i := (Response i, saved)]"
    have "distinct ps" using Cons.prems by simp
    moreover have "\<forall>j\<in>set ps. j < length ?a \<and> fst (?a ! j) = Stored j"
      using Cons.prems by (auto simp: nth_list_update)
    moreover have "coherent ?a" using Cons.prems by (simp add: coherent_update)
    ultimately have "sync_loop env api (map (\<lambda>i. (Stored i, f i)) ps) ?a w' =
      (apply_results ?a (zip ps (fst (creates env api (map f ps) w'))),
       snd (creates env api (map f ps) w'))"
      by (rule Cons.IH[of ?a w'])
    then show ?thesis using sv Inr idx
      by (simp add: array_set_def response_object_def split: prod.splits)
  qed
qed


lemma saveSnippet_frame:
  "saveSnippet env api s w = (r, w') \<Longrightarrow>
     globalState w' = globalState w \<and> updates w' = updates w \<and> messages w' = messages w
     \<and> apiLog w' = apiLog w @ [SaveSnippet s r]"
  by (auto simp: saveSnippet_def Let_def console_error_def split: prod.splits sum.splits)

lemma creates_frame:
  "creates env api ss w = (rs, w') \<Longrightarrow>
     length rs = length ss \<and> globalState w' = globalState w \<and> updates w' = updates w
     \<and> messages w' = messages w \<and> apiLog w' = apiLog w @ map2 SaveSnippet ss rs"
proof (induction ss arbitrary: w rs w')
  case Nil
  then show ?case by simp
next
  case (Cons s ss)
  obtain r w1 where sv: "saveSnippet env api s w = (r, w1)"
    by (cases "saveSnippet env api s w")
  note f1 = saveSnippet_frame[OF sv]
  show ?case
  proof (cases r)
    case (Inl e)
    let ?w = "console_error [''Failed to sync snippet:'', title s] e w1"
    obtain rs' w2 where cr: "creates env api ss ?w = (rs', w2)"
      by (cases "creates env api ss ?w")
    from Cons.prems sv Inl cr have "rs = Inl e # rs'" "w' = w2" by simp_all
    with Cons.IH[OF cr] f1 Inl show ?thesis by (simp add: console_error_def)
  next
    case (Inr saved)
    obtain rs' w2 where cr: "creates env api ss w1 = (rs', w2)"
      by (cases "creates env api ss w1")
    from Cons.prems sv Inr cr have "rs = Inr saved # rs'" "w' = w2" by simp_all
    with Cons.IH[OF cr] f1 Inr show ?thesis by simp
  qed
qed

lemma map_snd_apply_results:
  "map snd (apply_results a irs) = apply_values (map snd a) irs"
proof (induction irs arbitrary: a)
  case Nil
  then show ?case by simp
next
  case (Cons ir irs)
  obtain i r where ir: "ir = (i, r)" by (cases ir)
  show ?case using Cons.IH ir by (cases r) (simp_all add: map_update)
qed

lemma map_snd_objects: "map snd (objects xs) = xs"
  by (simp add: objects_def)

lemma pending_positions_Cons:
  "pending_positions (x # xs) =
     (if pending x then [0] else []) @ map Suc (pending_positions xs)"
proof -
  have "[0..<length (x # xs)] = 0 # map Suc [0..<length xs]"
    by (simp add: upt_conv_Cons map_Suc_upt del: upt_Suc)
  then show ?thesis
    by (simp add: pending_positions_def filter_map o_def)
qed

lemma apply_values_Suc:
  "apply_values (x # xs) (zip (map Suc ps) rs) = x # apply_values xs (zip ps rs)"
proof (induction ps arbitrary: xs rs)
  case Nil
  then show ?case by simp
next
  case (Cons p ps)
  show ?case
  proof (cases rs)
    case Nil
    then show ?thesis by simp
  next
    case (Cons r rs')
    then show ?thesis using Cons.IH by (cases r) simp_all
  qed
qed

lemma apply_values_reconcile:
  "apply_values xs (zip (pending_positions xs) rs) = reconcile xs rs"
proof (induction xs arbitrary: rs)
  case Nil
  then show ?case by (simp add: pending_positions_def)
next
  case (Cons x xs)
  show ?case
  proof (cases "pending x")
    case False
    then show ?thesis using Cons.IH
      by (simp add: pending_positions_Cons apply_values_Suc)
  next
    case True
    show ?thesis
    proof (cases rs)
      case Nil
      then show ?thesis by (simp add: True)
    next
      case (Cons r rs')
      then show ?thesis using True Cons.IH[of rs']
        by (cases r) (simp_all add: pending_positions_Cons apply_values_Suc)
    qed
  qed
qed

lemma syncWithAPI_eq:
  "syncWithAPI env api w =
     (let xs = getLocalSnippets w;
          (rs, w') = creates env api (filter pending xs) w
      in update_globalState ''snippets'' (reconcile xs rs) w')"
proof -
  let ?xs = "getLocalSnippets w"
  let ?ps = "pending_positions ?xs"
  have un: "filter (\<lambda>s. \<not> truthy (snippet_id (snd s))) (objects ?xs)
            = map (\<lambda>i. (Stored i, ?xs ! i)) ?ps"
    by (simp add: objects_map filter_map o_def pending_positions_def pending_def)
  have ss: "map (\<lambda>i. ?xs ! i) ?ps = filter pending ?xs"
  proof -
    have "filter pending (map (\<lambda>i. ?xs ! i) [0..<length ?xs]) = filter pending ?xs"
      by (simp add: map_nth)
    then show ?thesis by (simp add: filter_map o_def pending_positions_def)
  qed
  have d: "distinct ?ps" by (simp add: pending_positions_def)
  have v: "\<forall>i\<in>set ?ps. i < length (objects ?xs) \<and> fst (objects ?xs ! i) = Stored i"
    by (simp add: pending_positions_def objects_map)
  have "sync_loop env api (map (\<lambda>i. (Stored i, ?xs ! i)) ?ps) (objects ?xs) w =
     (apply_results (objects ?xs) (zip ?ps (fst (creates env api (map (\<lambda>i. ?xs ! i) ?ps) w))),
      snd (creates env api (map (\<lambda>i. ?xs ! i) ?ps) w))"
    using d v coherent_objects by (rule sync_loop_eq)
  then show ?thesis
    by (simp add: syncWithAPI_def Let_def un ss map_snd_apply_results map_snd_objects
        apply_values_reconcile split: prod.splits)
qed

lemma pending_iff: "pending s \<longleftrightarrow> snippet_id s = None \<or> snippet_id s = Some []"
  by (simp add: pending_def truthy_def split: option.splits)

lemma length_reconcile: "length (reconcile xs rs) = length xs"
  by (induction xs arbitrary: rs) (auto split: list.splits)

lemma reconcile_other:
  "i < length xs \<Longrightarrow> \<not> pending (xs ! i) \<Longrightarrow> reconcile xs rs ! i = xs ! i"
proof (induction xs arbitrary: i rs)
  case Nil
  then show ?case by simp
next
  case (Cons x xs)
  then show ?case by (cases i) (auto split: list.splits)
qed

lemma reconcile_at:
  "m < length (pending_positions xs) \<Longrightarrow> m < length rs \<Longrightarrow>
   reconcile xs rs ! (pending_positions xs ! m) =
     (case rs ! m of Inr saved \<Rightarrow> saved | Inl e \<Rightarrow> xs ! (pending_positions xs ! m))"
proof (induction xs arbitrary: m rs)
  case Nil
  then show ?case by (simp add: pending_positions_def)
next
  case (Cons x xs)
  show ?case
  proof (cases "pending x")
    case False
    with Cons.prems have "m < length (pending_positions xs)"
      by (simp add: pending_positions_Cons)
    from Cons.IH[OF this Cons.prems(2)] False show ?thesis
      using \<open>m < length (pending_positions xs)\<close>
      by (simp add: pending_positions_Cons cong: sum.case_cong)
  next
    case True
    from Cons.prems obtain r rs' where rs: "rs = r # rs'" by (cases rs) auto
    show ?thesis
    proof (cases m)
      case 0
      then show ?thesis using True rs
        by (simp add: pending_positions_Cons cong: sum.case_cong)
    next
      case (Suc k)
      with Cons.prems True rs have k: "k < length (pending_positions xs)" "k < length rs'"
        by (simp_all add: pending_positions_Cons)
      from Cons.IH[OF k] show ?thesis using True rs Suc k
        by (simp add: pending_positions_Cons cong: sum.case_cong)
    qed
  qed
qed

lemma pending_positions_set:
  "i \<in> set (pending_positions xs) \<longleftrightarrow> i < length xs \<and> pending (xs ! i)"
  by (auto simp: pending_positions_def)

lemma map_nth_pending_positions:
  "map (\<lambda>i. xs ! i) (pending_positions xs) = filter pending xs"
proof -
  have "filter pending (map (\<lambda>i. xs ! i) [0..<length xs]) = filter pending xs"
    by (simp add: map_nth)
  then show ?thesis by (simp add: filter_map o_def pending_positions_def)
qed

lemma filter_pending_reconcile:
  "length rs = length (filter pending xs) \<Longrightarrow>
   \<forall>saved. Inr saved \<in> set rs \<longrightarrow> \<not> pending saved \<Longrightarrow>
   filter pending (reconcile xs rs) = failed_creates (map2 SaveSnippet (filter pending xs) rs)"
proof (induction xs arbitrary: rs)
  case Nil
  then show ?case by simp
next
  case (Cons x xs)
  show ?case
  proof (cases "pending x")
    case False
    with Cons.prems Cons.IH[of rs] show ?thesis by simp
  next
    case True
    with Cons.prems obtain r rs' where rs: "rs = r # rs'" by (cases rs) auto
    with Cons.prems True have "length rs' = length (filter pending xs)"
      "\<forall>saved. Inr saved \<in> set rs' \<longrightarrow> \<not> pending saved" by auto
    from Cons.IH[OF this] show ?thesis using True rs Cons.prems(2)
      by (cases r) auto
  qed
qed

lemma getLocalSnippets_update:
  "getLocalSnippets (update_globalState ''snippets'' v w) = v"
  by (simp add: getLocalSnippets_def update_globalState_def)

lemma syncWithAPI_result:
  assumes "creates env api (filter pending (getLocalSnippets w)) w = (rs, w1)"
  shows "syncWithAPI env api w =
           update_globalState ''snippets'' (reconcile (getLocalSnippets w) rs) w1"
  using assms by (simp add: syncWithAPI_eq)

lemma getLocalSnippets_globalState:
  "globalState w' = globalState w \<Longrightarrow> getLocalSnippets w' = getLocalSnippets w"
  by (simp add: getLocalSnippets_def)

lemma saveLocally_fields:
  "globalState (saveLocally snippet w) = (globalState w)(''snippets'' \<mapsto> getLocalSnippets w @ [snippet])"
  "updates (saveLocally snippet w) = updates w @ [(''snippets'', getLocalSnippets w @ [snippet])]"
  "server (saveLocally snippet w) = server w"
  "apiLog (saveLocally snippet w) = apiLog w"
  "console (saveLocally snippet w) = console w"
  "messages (saveLocally snippet w) = messages w"
  by (simp_all add: saveLocally_def update_globalState_def Let_def)

lemma getLocalSnippets_saveLocally:
  "getLocalSnippets (saveLocally snippet w) = getLocalSnippets w @ [snippet]"
  by (simp add: getLocalSnippets_def saveLocally_fields)

lemma showMessage_fields:
  "globalState (showMessage m w) = globalState w"
  "updates (showMessage m w) = updates w"
  "server (showMessage m w) = server w"
  "apiLog (showMessage m w) = apiLog w"
  "console (showMessage m w) = console w"
  "messages (showMessage m w) = messages w @ [m]"
  by (simp_all add: showMessage_def)

lemma getLocalSnippets_showMessage:
  "getLocalSnippets (showMessage m w) = getLocalSnippets w"
  by (simp add: getLocalSnippets_def showMessage_fields)

lemma update_globalState_fields:
  "globalState (update_globalState key v w) = (globalState w)(key \<mapsto> v)"
  "updates (update_globalState key v w) = updates w @ [(key, v)]"
  "server (update_globalState key v w) = server w"
  "apiLog (update_globalState key v w) = apiLog w"
  "console (update_globalState key v w) = console w"
  "messages (update_globalState key v w) = messages w"
  by (simp_all add: update_globalState_def)

lemma console_error_fields:
  "globalState (console_error a e w) = globalState w"
  "updates (console_error a e w) = updates w"
  "server (console_error a e w) = server w"
  "apiLog (console_error a e w) = apiLog w"
  "console (console_error a e w) = console w @ [ConsoleError a e]"
  "messages (console_error a e w) = messages w"
  "getLocalSnippets (console_error a e w) = getLocalSnippets w"
  by (simp_all add: console_error_def getLocalSnippets_def)

section \<open>Properties of the local store\<close>

text \<open>
  Claim C10. For every world, \<^verbatim>\<open>saveLocally\<close> leaves every stored snippet at its position,
  adds the one new snippet at the end of the sequence, changes the memento at no key but
  \<^verbatim>\<open>"snippets"\<close>, and makes one update, of that key.
\<close>

theorem saveLocally_frame:
  "getLocalSnippets (saveLocally snippet w) = getLocalSnippets w @ [snippet]
   \<and> length (getLocalSnippets (saveLocally snippet w)) = Suc (length (getLocalSnippets w))
   \<and> (\<forall>i < length (getLocalSnippets w).
         getLocalSnippets (saveLocally snippet w) ! i = getLocalSnippets w ! i)
   \<and> last (getLocalSnippets (saveLocally snippet w)) = snippet
   \<and> (\<forall>key. key \<noteq> ''snippets'' \<longrightarrow>
         globalState (saveLocally snippet w) key = globalState w key)
   \<and> updates (saveLocally snippet w)
       = updates w @ [(''snippets'', getLocalSnippets w @ [snippet])]"
  by (simp add: getLocalSnippets_saveLocally saveLocally_fields nth_append)

theorem saveLocally_frame_witness:
  "getLocalSnippets
     (saveLocally (demo_snippet None ''A'')
        ((demo_world [demo_snippet (Some ''5'') ''B''])
           \<lparr>globalState := [''snippets'' \<mapsto> [demo_snippet (Some ''5'') ''B''],
                            ''drafts'' \<mapsto> [demo_snippet None ''C'']]\<rparr>))
     = [demo_snippet (Some ''5'') ''B'', demo_snippet None ''A'']
   \<and> getLocalSnippets
     (saveLocally (demo_snippet None ''A'')
        ((demo_world [demo_snippet (Some ''5'') ''B''])
           \<lparr>globalState := [''snippets'' \<mapsto> [demo_snippet (Some ''5'') ''B''],
                            ''drafts'' \<mapsto> [demo_snippet None ''C'']]\<rparr>)) ! 0
     = demo_snippet (Some ''5'') ''B''
   \<and> globalState
     (saveLocally (demo_snippet None ''A'')
        ((demo_world [demo_snippet (Some ''5'') ''B''])
           \<lparr>globalState := [''snippets'' \<mapsto> [demo_snippet (Some ''5'') ''B''],
                            ''drafts'' \<mapsto> [demo_snippet None ''C'']]\<rparr>)) ''drafts''
     = Some [demo_snippet None ''C'']"
proof -
  let ?w = "(demo_world [demo_snippet (Some ''5'') ''B''])
           \<lparr>globalState := [''snippets'' \<mapsto> [demo_snippet (Some ''5'') ''B''],
                            ''drafts'' \<mapsto> [demo_snippet None ''C'']]\<rparr>"
  have g: "getLocalSnippets ?w = [demo_snippet (Some ''5'') ''B'']"
    by (simp add: getLocalSnippets_def)
  have k: "''drafts'' \<noteq> ''snippets''" by simp
  have d: "globalState ?w ''drafts'' = Some [demo_snippet None ''C'']" by simp
  from saveLocally_frame[of "demo_snippet None ''A''" ?w] g k d show ?thesis
    by (auto simp del: fun_upd_apply)
qed

section \<open>Properties of the save command\<close>

text \<open>
  Claim C6. When the save command runs in local-only mode (\<^verbatim>\<open>useAPI\<close> false) and reaches
  the save (an editor is open, the selection and the title are not empty), the local
  sequence grows by exactly one element, the new snippet at its end, which has no id; the
  remote client is not called. The witness is the example of the specification.
\<close>

theorem saveCommand_local_only:
  assumes "activeTextEditor ui = Some ed" and "selectedText ed \<noteq> []"
    and "truthy (titleInput ui)"
    and "snippet = newSnippet env ed (the (titleInput ui)) ui"
    and "w' = saveCommand env api False ui w"
  shows "getLocalSnippets w' = getLocalSnippets w @ [snippet]
     \<and> length (getLocalSnippets w') = length (getLocalSnippets w) + 1
     \<and> snippet_id (last (getLocalSnippets w')) = None
     \<and> updates w' = updates w @ [(''snippets'', getLocalSnippets w @ [snippet])]
     \<and> apiLog w' = apiLog w \<and> server w' = server w
     \<and> messages w'
         = messages w @ [InformationMessage (check_mark @ '' Saved locally: '' @ title snippet)]"
proof -
  have w': "w' = showMessage
              (InformationMessage (check_mark @ '' Saved locally: '' @ title snippet))
              (saveLocally snippet w)"
    using assms by (simp add: saveCommand_def save_try_def Let_def)
  have "snippet_id snippet = None" using assms(4) by (simp add: newSnippet_def)
  then show ?thesis
    by (simp add: w' getLocalSnippets_showMessage getLocalSnippets_saveLocally
        showMessage_fields saveLocally_fields)
qed

theorem saveCommand_local_only_witness:
  "getLocalSnippets (saveCommand (demo_env (\<lambda>t. ''9'') (\<lambda>n. False)) demo_api False demo_ui
      (demo_world [demo_snippet (Some ''5'') ''B'']))
   = [demo_snippet (Some ''5'') ''B'',
      \<lparr>snippet_id = None, title = ''Loop'', description = [], code = ''for(...)'',
       language = ''ts'', tags = Some [''loop'', ''ts''],
       createdAt = ''2024-01-01T00:00:00.000Z'', updatedAt = None\<rparr>]
   \<and> apiLog (saveCommand (demo_env (\<lambda>t. ''9'') (\<lambda>n. False)) demo_api False demo_ui
      (demo_world [demo_snippet (Some ''5'') ''B''])) = []"
proof -
  let ?env = "demo_env (\<lambda>t. ''9'') (\<lambda>n. False)"
  let ?w = "demo_world [demo_snippet (Some ''5'') ''B'']"
  have h1: "activeTextEditor demo_ui = Some \<lparr>selectedText = ''for(...)'', languageId = ''ts''\<rparr>"
    by (simp add: demo_ui_def)
  have h2: "selectedText \<lparr>selectedText = ''for(...)'', languageId = ''ts''\<rparr> \<noteq> []" by simp
  have h3: "truthy (titleInput demo_ui)" by (simp add: demo_ui_def truthy_def)
  have s: "newSnippet ?env \<lparr>selectedText = ''for(...)'', languageId = ''ts''\<rparr>
             (the (titleInput demo_ui)) demo_ui
           = \<lparr>snippet_id = None, title = ''Loop'', description = [], code = ''for(...)'',
              language = ''ts'', tags = Some [''loop'', ''ts''],
              createdAt = ''2024-01-01T00:00:00.000Z'', updatedAt = None\<rparr>"
    by code_simp
  have g: "getLocalSnippets ?w = [demo_snippet (Some ''5'') ''B'']" by code_simp
  have a: "apiLog ?w = []" by (simp add: demo_world_def)
  from saveCommand_local_only[OF h1 h2 h3 refl refl, of ?env demo_api ?w] s g a
  show ?thesis by simp
qed

lemma saveSnippet_fields:
  assumes "saveSnippet env api s w = (r, w')"
  shows "globalState w' = globalState w" and "updates w' = updates w"
    and "messages w' = messages w" and "apiLog w' = apiLog w @ [SaveSnippet s r]"
    and "getLocalSnippets w' = getLocalSnippets w"
  using saveSnippet_frame[OF assms] by (simp_all add: getLocalSnippets_def)

text \<open>
  Claim C1. When the save command runs with \<^verbatim>\<open>useAPI\<close> true and \<^verbatim>\<open>saveSnippet\<close> fails, the
  error is thrown inside the \<^verbatim>\<open>try\<close> block and caught by the command: the original snippet,
  which has no id, is appended to the local sequence, and the one message shown is a
  warning, where the successful runs show an information message. This holds for every
  error. (The memento is modelled as storing what it is given, so nothing else of the
  command can throw.)
\<close>

theorem saveCommand_remote_failure:
  assumes "activeTextEditor ui = Some ed" and "selectedText ed \<noteq> []"
    and "truthy (titleInput ui)"
    and "snippet = newSnippet env ed (the (titleInput ui)) ui"
    and "saveSnippet env api snippet w = (Inl error, w1)"
    and "w' = saveCommand env api True ui w"
  shows "save_try env api True snippet w = (Inl error, w1)
     \<and> w' = showMessage
              (WarningMessage (''Saved locally (API unavailable): '' @ title snippet))
              (saveLocally snippet w1)
     \<and> getLocalSnippets w' = getLocalSnippets w @ [snippet]
     \<and> snippet_id snippet = None
     \<and> updates w' = updates w @ [(''snippets'', getLocalSnippets w @ [snippet])]
     \<and> apiLog w' = apiLog w @ [SaveSnippet snippet (Inl error)]
     \<and> messages w'
         = messages w @ [WarningMessage (''Saved locally (API unavailable): '' @ title snippet)]"
proof -
  note fr = saveSnippet_fields[OF assms(5)]
  have t: "save_try env api True snippet w = (Inl error, w1)"
    using assms(5) by (simp add: save_try_def)
  have w': "w' = showMessage
              (WarningMessage (''Saved locally (API unavailable): '' @ title snippet))
              (saveLocally snippet w1)"
    using assms(1-4,6) t by (simp add: saveCommand_def Let_def)
  have n: "snippet_id snippet = None" using assms(4) by (simp add: newSnippet_def)
  have "getLocalSnippets w' = getLocalSnippets w @ [snippet]"
    by (simp add: w' getLocalSnippets_showMessage getLocalSnippets_saveLocally fr)
  moreover have "updates w' = updates w @ [(''snippets'', getLocalSnippets w @ [snippet])]"
    by (simp add: w' showMessage_fields saveLocally_fields fr)
  moreover have "apiLog w' = apiLog w @ [SaveSnippet snippet (Inl error)]"
    by (simp add: w' showMessage_fields saveLocally_fields fr)
  moreover have "messages w'
         = messages w @ [WarningMessage (''Saved locally (API unavailable): '' @ title snippet)]"
    by (simp add: w' showMessage_fields saveLocally_fields fr)
  ultimately show ?thesis using t w' n by blast
qed

theorem saveCommand_remote_failure_witness:
  "getLocalSnippets (saveCommand (demo_env (\<lambda>t. ''9'') (\<lambda>n. True)) demo_api True demo_ui
      (demo_world [demo_snippet (Some ''5'') ''B'']))
   = [demo_snippet (Some ''5'') ''B'',
      \<lparr>snippet_id = None, title = ''Loop'', description = [], code = ''for(...)'',
       language = ''ts'', tags = Some [''loop'', ''ts''],
       createdAt = ''2024-01-01T00:00:00.000Z'', updatedAt = None\<rparr>]
   \<and> messages (saveCommand (demo_env (\<lambda>t. ''9'') (\<lambda>n. True)) demo_api True demo_ui
      (demo_world [demo_snippet (Some ''5'') ''B'']))
   = [WarningMessage ''Saved locally (API unavailable): Loop'']"
proof -
  let ?env = "demo_env (\<lambda>t. ''9'') (\<lambda>n. True)"
  let ?w = "demo_world [demo_snippet (Some ''5'') ''B'']"
  let ?ed = "\<lparr>selectedText = ''for(...)'', languageId = ''ts''\<rparr>"
  let ?s = "newSnippet ?env ?ed (the (titleInput demo_ui)) demo_ui"
  have h1: "activeTextEditor demo_ui = Some ?ed" by (simp add: demo_ui_def)
  have h2: "selectedText ?ed \<noteq> []" by simp
  have h3: "truthy (titleInput demo_ui)" by (simp add: demo_ui_def truthy_def)
  have "fst (saveSnippet ?env demo_api ?s ?w) = Inl (Error ''ECONNREFUSED'')" by code_simp
  then obtain w1 where h5: "saveSnippet ?env demo_api ?s ?w = (Inl (Error ''ECONNREFUSED''), w1)"
    by (cases "saveSnippet ?env demo_api ?s ?w") auto
  have s: "?s = \<lparr>snippet_id = None, title = ''Loop'', description = [], code = ''for(...)'',
              language = ''ts'', tags = Some [''loop'', ''ts''],
              createdAt = ''2024-01-01T00:00:00.000Z'', updatedAt = None\<rparr>"
    by code_simp
  have g: "getLocalSnippets ?w = [demo_snippet (Some ''5'') ''B'']" by code_simp
  have m: "messages ?w = []" by (simp add: demo_world_def)
  from saveCommand_remote_failure[OF h1 h2 h3 refl h5 refl]
  have "getLocalSnippets (saveCommand ?env demo_api True demo_ui ?w)
          = getLocalSnippets ?w @ [?s]"
    and "messages (saveCommand ?env demo_api True demo_ui ?w)
          = messages ?w @ [WarningMessage (''Saved locally (API unavailable): '' @ title ?s)]"
    by blast+
  with s g m show ?thesis by simp
qed

text \<open>
  Claim C2. When the save command runs with \<^verbatim>\<open>useAPI\<close> true and \<^verbatim>\<open>saveSnippet\<close> resolves to
  \<open>saved\<close>, the element appended to the local sequence is \<open>saved\<close>, the representation the
  remote client returned, with the id it carries; the command computes no id itself.
\<close>

theorem saveCommand_remote_success:
  assumes "activeTextEditor ui = Some ed" and "selectedText ed \<noteq> []"
    and "truthy (titleInput ui)"
    and "snippet = newSnippet env ed (the (titleInput ui)) ui"
    and "saveSnippet env api snippet w = (Inr saved, w1)"
    and "w' = saveCommand env api True ui w"
  shows "getLocalSnippets w' = getLocalSnippets w @ [saved]
     \<and> last (getLocalSnippets w') = saved
     \<and> snippet_id (last (getLocalSnippets w')) = snippet_id saved
     \<and> updates w' = updates w @ [(''snippets'', getLocalSnippets w @ [saved])]
     \<and> apiLog w' = apiLog w @ [SaveSnippet snippet (Inr saved)]
     \<and> messages w'
         = messages w @ [InformationMessage
                           (check_mark @ '' Saved to Snippetly: '' @ title snippet)]"
proof -
  note fr = saveSnippet_fields[OF assms(5)]
  have t: "save_try env api True snippet w =
             (Inr (), showMessage
                (InformationMessage (check_mark @ '' Saved to Snippetly: '' @ title snippet))
                (saveLocally saved w1))"
    using assms(5) by (simp add: save_try_def)
  have w': "w' = showMessage
              (InformationMessage (check_mark @ '' Saved to Snippetly: '' @ title snippet))
              (saveLocally saved w1)"
    using assms(1-4,6) t by (simp add: saveCommand_def Let_def)
  have 1: "getLocalSnippets w' = getLocalSnippets w @ [saved]"
    by (simp add: w' getLocalSnippets_showMessage getLocalSnippets_saveLocally fr)
  have 2: "updates w' = updates w @ [(''snippets'', getLocalSnippets w @ [saved])]"
    by (simp add: w' showMessage_fields saveLocally_fields fr)
  have 3: "apiLog w' = apiLog w @ [SaveSnippet snippet (Inr saved)]"
    by (simp add: w' showMessage_fields saveLocally_fields fr)
  have 4: "messages w' = messages w @ [InformationMessage
                           (check_mark @ '' Saved to Snippetly: '' @ title snippet)]"
    by (simp add: w' showMessage_fields saveLocally_fields fr)
  from 1 2 3 4 show ?thesis by simp
qed

theorem saveCommand_remote_success_witness:
  "getLocalSnippets (saveCommand (demo_env (\<lambda>t. ''42'') (\<lambda>n. False)) demo_api True demo_ui
      (demo_world [demo_snippet (Some ''5'') ''B'']))
   = [demo_snippet (Some ''5'') ''B'', demo_snippet (Some ''42'') ''Loop'']
   \<and> messages (saveCommand (demo_env (\<lambda>t. ''42'') (\<lambda>n. False)) demo_api True demo_ui
      (demo_world [demo_snippet (Some ''5'') ''B'']))
   = [InformationMessage (check_mark @ '' Saved to Snippetly: Loop'')]"
proof -
  let ?env = "demo_env (\<lambda>t. ''42'') (\<lambda>n. False)"
  let ?w = "demo_world [demo_snippet (Some ''5'') ''B'']"
  let ?ed = "\<lparr>selectedText = ''for(...)'', languageId = ''ts''\<rparr>"
  let ?s = "newSnippet ?env ?ed (the (titleInput demo_ui)) demo_ui"
  have h1: "activeTextEditor demo_ui = Some ?ed" by (simp add: demo_ui_def)
  have h2: "selectedText ?ed \<noteq> []" by simp
  have h3: "truthy (titleInput demo_ui)" by (simp add: demo_ui_def truthy_def)
  have "fst (saveSnippet ?env demo_api ?s ?w) = Inr (demo_snippet (Some ''42'') ''Loop'')"
    by code_simp
  then obtain w1 where
    h5: "saveSnippet ?env demo_api ?s ?w = (Inr (demo_snippet (Some ''42'') ''Loop''), w1)"
    by (cases "saveSnippet ?env demo_api ?s ?w") auto
  have t: "title ?s = ''Loop''" by code_simp
  have g: "getLocalSnippets ?w = [demo_snippet (Some ''5'') ''B'']" by code_simp
  have m: "messages ?w = []" by (simp add: demo_world_def)
  from saveCommand_remote_success[OF h1 h2 h3 refl h5 refl] t g m
  show ?thesis by simp
qed

section \<open>Properties of the remote client\<close>




lemma searchSnippets_fst:
  "fst (searchSnippets env api query w) =
     fst (makeRequest env (getRequestOptions api (searchPath env query) ''GET'') None (server w))"
  by (simp add: searchSnippets_def Let_def split: prod.splits sum.splits)





lemma makeRequest_snd:
  "snd (makeRequest env options data s) = snd (send env options data s)"
  by (simp add: makeRequest_def split: prod.splits)

lemma searchSnippets_server:
  "server (snd (searchSnippets env api query w)) =
     snd (send env (getRequestOptions api (searchPath env query) ''GET'') None (server w))"
  by (simp add: searchSnippets_def Let_def console_error_def
      flip: makeRequest_snd split: prod.splits sum.splits)

lemma searchPath_cases:
  "searchPath env None = ''/snippets''"
  "searchPath env (Some []) = ''/snippets''"
  "q \<noteq> [] \<Longrightarrow> searchPath env (Some q) = ''/snippets/search?q='' @ encodeURIComponent env q"
  by (simp_all add: searchPath_def truthy_def)

text \<open>
  Claim C9. \<^verbatim>\<open>searchSnippets\<close> treats the empty query as the absent one. For the query
  \<^verbatim>\<open>undefined\<close> and for the query \<^verbatim>\<open>""\<close> it sends one request, a \<^verbatim>\<open>GET\<close> whose path is
  \<^verbatim>\<open>/snippets\<close>: its result is the result of \<^verbatim>\<open>makeRequest\<close> on that request, and the remote
  service is left in the state that this request leaves. So the search for the empty
  string returns what the search without a query returns, the full collection. A query
  that is not empty sends a \<^verbatim>\<open>GET\<close> of \<^verbatim>\<open>/snippets/search?q=\<close> with the encoded query. In
  the witness the service answers a request with its path.
\<close>

theorem searchSnippets_empty_query:
  "searchPath env None = ''/snippets''
   \<and> searchPath env (Some []) = ''/snippets''
   \<and> (\<forall>q. q \<noteq> [] \<longrightarrow>
         searchPath env (Some q) = ''/snippets/search?q='' @ encodeURIComponent env q)
   \<and> fst (searchSnippets env api (Some []) w) = fst (searchSnippets env api None w)
   \<and> server (snd (searchSnippets env api (Some [])  w))
       = server (snd (searchSnippets env api None w))
   \<and> path (getRequestOptions api ''/snippets'' ''GET'') = ''/snippets''
   \<and> http_method (getRequestOptions api ''/snippets'' ''GET'') = ''GET''
   \<and> fst (searchSnippets env api None w)
       = fst (makeRequest env (getRequestOptions api ''/snippets'' ''GET'') None (server w))
   \<and> fst (searchSnippets env api (Some []) w)
       = fst (makeRequest env (getRequestOptions api ''/snippets'' ''GET'') None (server w))
   \<and> server (snd (searchSnippets env api None w))
       = snd (send env (getRequestOptions api ''/snippets'' ''GET'') None (server w))
   \<and> server (snd (searchSnippets env api (Some []) w))
       = snd (send env (getRequestOptions api ''/snippets'' ''GET'') None (server w))
   \<and> (\<forall>q. q \<noteq> [] \<longrightarrow>
         fst (searchSnippets env api (Some q) w)
           = fst (makeRequest env
                    (getRequestOptions api
                       (''/snippets/search?q='' @ encodeURIComponent env q) ''GET'')
                    None (server w))
       \<and> server (snd (searchSnippets env api (Some q) w))
           = snd (send env
                    (getRequestOptions api
                       (''/snippets/search?q='' @ encodeURIComponent env q) ''GET'')
                    None (server w)))"
proof -
  have p: "path (getRequestOptions api ''/snippets'' ''GET'') = ''/snippets''"
    "http_method (getRequestOptions api ''/snippets'' ''GET'') = ''GET''"
    by (simp_all add: getRequestOptions_def)
  have n: "fst (searchSnippets env api None w)
       = fst (makeRequest env (getRequestOptions api ''/snippets'' ''GET'') None (server w))"
    "server (snd (searchSnippets env api None w))
       = snd (send env (getRequestOptions api ''/snippets'' ''GET'') None (server w))"
    by (simp_all add: searchSnippets_fst searchSnippets_server searchPath_cases)
  have e: "fst (searchSnippets env api (Some []) w)
       = fst (makeRequest env (getRequestOptions api ''/snippets'' ''GET'') None (server w))"
    "server (snd (searchSnippets env api (Some []) w))
       = snd (send env (getRequestOptions api ''/snippets'' ''GET'') None (server w))"
    by (simp_all add: searchSnippets_fst searchSnippets_server searchPath_cases)
  have q: "\<forall>q. q \<noteq> [] \<longrightarrow>
         fst (searchSnippets env api (Some q) w)
           = fst (makeRequest env
                    (getRequestOptions api
                       (''/snippets/search?q='' @ encodeURIComponent env q) ''GET'')
                    None (server w))
       \<and> server (snd (searchSnippets env api (Some q) w))
           = snd (send env
                    (getRequestOptions api
                       (''/snippets/search?q='' @ encodeURIComponent env q) ''GET'')
                    None (server w))"
    by (simp add: searchSnippets_fst searchSnippets_server searchPath_cases)
  from p n e q show ?thesis by (simp add: searchPath_cases)
qed

theorem searchSnippets_empty_query_witness:
  "fst (searchSnippets
          ((demo_env (\<lambda>t. ''9'') (\<lambda>n. False))
             \<lparr>http_request := (\<lambda>s options written. (End (Some 200) (path options), Suc s))\<rparr>)
          demo_api (Some []) (demo_world []))
     = Inr (Parsed (demo_snippet (Some ''9'') ''/snippets''))
   \<and> fst (searchSnippets
          ((demo_env (\<lambda>t. ''9'') (\<lambda>n. False))
             \<lparr>http_request := (\<lambda>s options written. (End (Some 200) (path options), Suc s))\<rparr>)
          demo_api None (demo_world []))
     = Inr (Parsed (demo_snippet (Some ''9'') ''/snippets''))
   \<and> fst (searchSnippets
          ((demo_env (\<lambda>t. ''9'') (\<lambda>n. False))
             \<lparr>http_request := (\<lambda>s options written. (End (Some 200) (path options), Suc s))\<rparr>)
          demo_api (Some ''binary search'') (demo_world []))
     = Inr (Parsed (demo_snippet (Some ''9'') ''/snippets/search?q=binary%20search''))
   \<and> server (snd (searchSnippets
          ((demo_env (\<lambda>t. ''9'') (\<lambda>n. False))
             \<lparr>http_request := (\<lambda>s options written. (End (Some 200) (path options), Suc s))\<rparr>)
          demo_api (Some []) (demo_world []))) = 1"
proof -
  let ?env = "(demo_env (\<lambda>t. ''9'') (\<lambda>n. False))
             \<lparr>http_request := (\<lambda>s options written. (End (Some 200) (path options), Suc s))\<rparr>"
  let ?w = "demo_world [] :: nat world"
  let ?all = "getRequestOptions demo_api ''/snippets'' ''GET''"
  let ?one = "getRequestOptions demo_api
                (''/snippets/search?q='' @ encodeURIComponent ?env ''binary search'') ''GET''"
  have m1: "fst (makeRequest ?env ?all None (server ?w))
              = Inr (Parsed (demo_snippet (Some ''9'') ''/snippets''))" by code_simp
  have m2: "fst (makeRequest ?env ?one None (server ?w))
              = Inr (Parsed (demo_snippet (Some ''9'') ''/snippets/search?q=binary%20search''))"
    by code_simp
  have s1: "snd (send ?env ?all None (server ?w)) = 1" by code_simp
  have n: "''binary search'' \<noteq> []" by simp
  note th = searchSnippets_empty_query[of ?env demo_api ?w]
  from th m1 have 1: "fst (searchSnippets ?env demo_api (Some []) ?w)
      = Inr (Parsed (demo_snippet (Some ''9'') ''/snippets''))" by simp
  from th m1 have 2: "fst (searchSnippets ?env demo_api None ?w)
      = Inr (Parsed (demo_snippet (Some ''9'') ''/snippets''))" by simp
  from th n have "fst (searchSnippets ?env demo_api (Some ''binary search'') ?w)
      = fst (makeRequest ?env ?one None (server ?w))" by blast
  with m2 have 3: "fst (searchSnippets ?env demo_api (Some ''binary search'') ?w)
      = Inr (Parsed (demo_snippet (Some ''9'') ''/snippets/search?q=binary%20search''))"
    by simp
  from th s1 have 4: "server (snd (searchSnippets ?env demo_api (Some []) ?w)) = 1" by simp
  from 1 2 3 4 show ?thesis by simp
qed

section \<open>Properties of the sync reconciler\<close>

text \<open>
  Claim C4. Let \<open>xs\<close> be the local sequence and \<open>ps\<close> the positions of its pending
  snippets, in ascending order. \<^verbatim>\<open>syncWithAPI\<close> calls \<^verbatim>\<open>saveSnippet\<close> once for each pending
  snippet, in the order of the sequence; with \<open>rs\<close> the outcomes of these calls, the slot
  of the \<open>m\<close>-th pending snippet holds the returned representation when its call
  succeeded and is unchanged when it failed; every other slot is unchanged, the length
  is unchanged, and the memento is updated once, with the whole resulting sequence. The
  witness is the example of the specification: \<open>[A, B(id "5")]\<close>, where the service
  answers the creation of \<open>A\<close> with the id \<open>"9"\<close>, becomes \<open>[A(id "9"), B(id "5")]\<close>.
\<close>

theorem syncWithAPI_slots:
  assumes "xs = getLocalSnippets w" and "w' = syncWithAPI env api w"
    and "ps = filter (\<lambda>i. \<not> truthy (snippet_id (xs ! i))) [0..<length xs]"
  shows "\<exists>rs. length rs = length ps
     \<and> apiLog w' = apiLog w @ map2 SaveSnippet (map (\<lambda>i. xs ! i) ps) rs
     \<and> length (getLocalSnippets w') = length xs
     \<and> (\<forall>m < length ps. getLocalSnippets w' ! (ps ! m) =
           (case rs ! m of Inr saved \<Rightarrow> saved | Inl e \<Rightarrow> xs ! (ps ! m)))
     \<and> (\<forall>i < length xs. i \<notin> set ps \<longrightarrow> getLocalSnippets w' ! i = xs ! i)
     \<and> updates w' = updates w @ [(''snippets'', getLocalSnippets w')]"
proof -
  have ps: "ps = pending_positions xs"
    using assms(3) by (simp add: pending_positions_def pending_def)
  obtain rs w1 where cr: "creates env api (filter pending xs) w = (rs, w1)"
    by (cases "creates env api (filter pending xs) w")
  note fr = creates_frame[OF cr]
  have w': "w' = update_globalState ''snippets'' (reconcile xs rs) w1"
    using assms(1,2) cr by (simp add: syncWithAPI_result)
  have ys: "getLocalSnippets w' = reconcile xs rs"
    by (simp add: w' getLocalSnippets_update)
  have len: "length rs = length ps"
    using fr by (simp add: ps flip: map_nth_pending_positions)
  have "apiLog w' = apiLog w @ map2 SaveSnippet (map (\<lambda>i. xs ! i) ps) rs"
    using fr by (simp add: w' update_globalState_def ps map_nth_pending_positions)
  moreover have "length (getLocalSnippets w') = length xs"
    by (simp add: ys length_reconcile)
  moreover have "\<forall>m < length ps. getLocalSnippets w' ! (ps ! m) =
           (case rs ! m of Inr saved \<Rightarrow> saved | Inl e \<Rightarrow> xs ! (ps ! m))"
    using len by (simp add: ys ps reconcile_at cong: sum.case_cong)
  moreover have "\<forall>i < length xs. i \<notin> set ps \<longrightarrow> getLocalSnippets w' ! i = xs ! i"
    by (simp add: ys ps pending_positions_set reconcile_other)
  moreover have "updates w' = updates w @ [(''snippets'', getLocalSnippets w')]"
    using fr by (simp add: ys) (simp add: w' update_globalState_def)
  ultimately show ?thesis using len by blast
qed

theorem syncWithAPI_slots_witness:
  "getLocalSnippets
     (syncWithAPI (demo_env (\<lambda>t. ''9'') (\<lambda>n. False)) demo_api
        (demo_world [demo_snippet None ''A'', demo_snippet (Some ''5'') ''B'']))
     = [demo_snippet (Some ''9'') ''A'', demo_snippet (Some ''5'') ''B'']
   \<and> updates
     (syncWithAPI (demo_env (\<lambda>t. ''9'') (\<lambda>n. False)) demo_api
        (demo_world [demo_snippet None ''A'', demo_snippet (Some ''5'') ''B'']))
     = [(''snippets'', [demo_snippet (Some ''9'') ''A'', demo_snippet (Some ''5'') ''B''])]
   \<and> apiLog
     (syncWithAPI (demo_env (\<lambda>t. ''9'') (\<lambda>n. False)) demo_api
        (demo_world [demo_snippet None ''A'', demo_snippet (Some ''5'') ''B'']))
     = [SaveSnippet (demo_snippet None ''A'') (Inr (demo_snippet (Some ''9'') ''A''))]"
proof -
  let ?xs = "[demo_snippet None ''A'', demo_snippet (Some ''5'') ''B'']"
  let ?w = "demo_world ?xs"
  let ?w' = "syncWithAPI (demo_env (\<lambda>t. ''9'') (\<lambda>n. False)) demo_api ?w"
  have h1: "?xs = getLocalSnippets ?w" by code_simp
  have h3: "[0] = filter (\<lambda>i. \<not> truthy (snippet_id (?xs ! i))) [0..<length ?xs]"
    by code_simp
  from syncWithAPI_slots[OF h1 refl h3]
  obtain rs where rs: "length rs = length [0::nat]"
     "apiLog ?w' = apiLog ?w @ map2 SaveSnippet (map (\<lambda>i. ?xs ! i) [0]) rs"
     "length (getLocalSnippets ?w') = length ?xs"
     "\<forall>m < length [0::nat]. getLocalSnippets ?w' ! ([0] ! m) =
           (case rs ! m of Inr saved \<Rightarrow> saved | Inl e \<Rightarrow> ?xs ! ([0] ! m))"
     "\<forall>i < length ?xs. i \<notin> set [0] \<longrightarrow> getLocalSnippets ?w' ! i = ?xs ! i"
     "updates ?w' = updates ?w @ [(''snippets'', getLocalSnippets ?w')]"
    by blast
  have log: "apiLog ?w' = [SaveSnippet (demo_snippet None ''A'') (Inr (demo_snippet (Some ''9'') ''A''))]"
    by code_simp
  have "apiLog ?w = []" by (simp add: demo_world_def)
  with rs(1,2) log have r0: "rs ! 0 = Inr (demo_snippet (Some ''9'') ''A'')"
    by (cases rs) auto
  from rs(4) r0 have y0: "getLocalSnippets ?w' ! 0 = demo_snippet (Some ''9'') ''A''" by simp
  from rs(5) have y1: "getLocalSnippets ?w' ! 1 = demo_snippet (Some ''5'') ''B''" by simp
  from rs(3) y0 y1 have ys: "getLocalSnippets ?w' = [demo_snippet (Some ''9'') ''A'', demo_snippet (Some ''5'') ''B'']"
    by (intro nth_equalityI) (auto simp: less_Suc_eq)
  have "updates ?w = []" by (simp add: demo_world_def)
  with rs(6) ys log show ?thesis by simp
qed

lemma saveSnippet_console:
  "saveSnippet env api s w = (Inr saved, w') \<Longrightarrow> console w' = console w"
  "saveSnippet env api s w = (Inl e, w') \<Longrightarrow>
     console w' = console w @ [ConsoleError [''API Error:''] e]"
  by (auto simp: saveSnippet_def Let_def console_error_def split: prod.splits sum.splits)

text \<open>
  Claim C5. Let the local sequence have three pending snippets, at the positions
  \<open>p1 < p2 < p3\<close>, and let the remote client answer the first, fail on the second and
  answer the third. Then \<^verbatim>\<open>syncWithAPI\<close> makes all three calls: the failure is written to
  the console with the title of the snippet and the loop goes on. The slots of the first
  and the third hold the representations the service returned, the slot of the second
  is unchanged and still has no id, every other slot is unchanged and so is the length.
  In the witness the second and the third pending snippet have the same content, and
  the response to the third is written to the slot of the third: \<^verbatim>\<open>indexOf\<close> finds an
  object, not a content.
\<close>

theorem syncWithAPI_partial_failure:
  assumes "xs = getLocalSnippets w"
    and "filter (\<lambda>i. \<not> truthy (snippet_id (xs ! i))) [0..<length xs] = [p1, p2, p3]"
    and "saveSnippet env api (xs ! p1) w = (Inr a, w1)"
    and "saveSnippet env api (xs ! p2) w1 = (Inl e, w2)"
    and "saveSnippet env api (xs ! p3)
           (console_error [''Failed to sync snippet:'', title (xs ! p2)] e w2) = (Inr c, w3)"
    and "w' = syncWithAPI env api w"
  shows "getLocalSnippets w' ! p1 = a
     \<and> getLocalSnippets w' ! p2 = xs ! p2
     \<and> \<not> truthy (snippet_id (getLocalSnippets w' ! p2))
     \<and> getLocalSnippets w' ! p3 = c
     \<and> length (getLocalSnippets w') = length xs
     \<and> (\<forall>i < length xs. i \<notin> {p1, p2, p3} \<longrightarrow> getLocalSnippets w' ! i = xs ! i)
     \<and> apiLog w' = apiLog w @ [SaveSnippet (xs ! p1) (Inr a), SaveSnippet (xs ! p2) (Inl e),
                                SaveSnippet (xs ! p3) (Inr c)]
     \<and> console w' = console w2 @ [ConsoleError [''Failed to sync snippet:'', title (xs ! p2)] e]
     \<and> updates w' = updates w @ [(''snippets'', getLocalSnippets w')]"
proof -
  let ?rs = "[Inr a, Inl e, Inr c]"
  have ps: "pending_positions xs = [p1, p2, p3]"
    using assms(2) by (simp add: pending_positions_def pending_def)
  have fp: "filter pending xs = [xs ! p1, xs ! p2, xs ! p3]"
    using map_nth_pending_positions[of xs] ps by simp
  have cr: "creates env api (filter pending (getLocalSnippets w)) w = (?rs, w3)"
    using assms(3,4,5) by (simp add: fp flip: assms(1))
  have w': "w' = update_globalState ''snippets'' (reconcile xs ?rs) w3"
    using syncWithAPI_result[OF cr] assms(1,6) by simp
  have ys: "getLocalSnippets w' = reconcile xs ?rs"
    by (simp add: w' getLocalSnippets_update)
  have y1: "getLocalSnippets w' ! p1 = a"
    using reconcile_at[of 0 xs ?rs] by (simp add: ys ps)
  have y2: "getLocalSnippets w' ! p2 = xs ! p2"
    using reconcile_at[of 1 xs ?rs] by (simp add: ys ps)
  have y3: "getLocalSnippets w' ! p3 = c"
    using reconcile_at[of 2 xs ?rs] by (simp add: ys ps)
  have "p2 \<in> set (pending_positions xs)" by (simp add: ps)
  then have p: "\<not> truthy (snippet_id (xs ! p2))"
    by (simp add: pending_positions_set pending_def)
  have len: "length (getLocalSnippets w') = length xs" by (simp add: ys length_reconcile)
  have oth: "\<forall>i < length xs. i \<notin> {p1, p2, p3} \<longrightarrow> getLocalSnippets w' ! i = xs ! i"
  proof (intro allI impI)
    fix i assume i: "i < length xs" "i \<notin> {p1, p2, p3}"
    then have "i \<notin> set (pending_positions xs)" by (simp add: ps)
    with i have "\<not> pending (xs ! i)" by (simp add: pending_positions_set)
    with i show "getLocalSnippets w' ! i = xs ! i" by (simp add: ys reconcile_other)
  qed
  note f1 = saveSnippet_fields[OF assms(3)]
  note f2 = saveSnippet_fields[OF assms(4)]
  note f3 = saveSnippet_fields[OF assms(5)]
  have log: "apiLog w' = apiLog w @ [SaveSnippet (xs ! p1) (Inr a),
               SaveSnippet (xs ! p2) (Inl e), SaveSnippet (xs ! p3) (Inr c)]"
    by (simp add: w' update_globalState_fields f1 f2 f3 console_error_fields)
  have con: "console w' = console w2 @ [ConsoleError [''Failed to sync snippet:'', title (xs ! p2)] e]"
    by (simp add: w' update_globalState_fields saveSnippet_console(1)[OF assms(5)]
        console_error_fields)
  have upd: "updates w' = updates w @ [(''snippets'', getLocalSnippets w')]"
    by (simp add: ys) (simp add: w' update_globalState_fields f1 f2 f3 console_error_fields)
  from y1 y2 y3 p len oth log con upd show ?thesis by simp
qed

theorem syncWithAPI_partial_failure_witness:
  "getLocalSnippets
     (syncWithAPI (demo_env (\<lambda>t. ''id-'' @ t) (\<lambda>n. n = 1)) demo_api
        (demo_world [demo_snippet None ''A'', demo_snippet (Some ''5'') ''B'',
                     demo_snippet None ''C'', demo_snippet None ''C'']))
     = [demo_snippet (Some ''id-A'') ''A'', demo_snippet (Some ''5'') ''B'',
        demo_snippet None ''C'', demo_snippet (Some ''id-C'') ''C'']
   \<and> apiLog
     (syncWithAPI (demo_env (\<lambda>t. ''id-'' @ t) (\<lambda>n. n = 1)) demo_api
        (demo_world [demo_snippet None ''A'', demo_snippet (Some ''5'') ''B'',
                     demo_snippet None ''C'', demo_snippet None ''C'']))
     = [SaveSnippet (demo_snippet None ''A'') (Inr (demo_snippet (Some ''id-A'') ''A'')),
        SaveSnippet (demo_snippet None ''C'') (Inl (Error ''ECONNREFUSED'')),
        SaveSnippet (demo_snippet None ''C'') (Inr (demo_snippet (Some ''id-C'') ''C''))]"
proof -
  let ?env = "demo_env (\<lambda>t. ''id-'' @ t) (\<lambda>n. n = 1)"
  let ?w = "demo_world [demo_snippet None ''A'', demo_snippet (Some ''5'') ''B'',
                     demo_snippet None ''C'', demo_snippet None ''C'']"
  let ?xs = "getLocalSnippets ?w"
  let ?c1 = "saveSnippet ?env demo_api (?xs ! 0) ?w"
  let ?c2 = "saveSnippet ?env demo_api (?xs ! 2) (snd ?c1)"
  let ?c3 = "saveSnippet ?env demo_api (?xs ! 3)
               (console_error [''Failed to sync snippet:'', title (?xs ! 2)]
                  (Error ''ECONNREFUSED'') (snd ?c2))"
  let ?w' = "syncWithAPI ?env demo_api ?w"
  have h2: "filter (\<lambda>i. \<not> truthy (snippet_id (?xs ! i))) [0..<length ?xs] = [0, 2, 3]"
    by code_simp
  have "fst ?c1 = Inr (demo_snippet (Some ''id-A'') ''A'')" by code_simp
  then have h3: "?c1 = (Inr (demo_snippet (Some ''id-A'') ''A''), snd ?c1)"
    by (simp add: prod_eq_iff)
  have "fst ?c2 = Inl (Error ''ECONNREFUSED'')" by code_simp
  then have h4: "?c2 = (Inl (Error ''ECONNREFUSED''), snd ?c2)"
    by (simp add: prod_eq_iff)
  have "fst ?c3 = Inr (demo_snippet (Some ''id-C'') ''C'')" by code_simp
  then have h5: "?c3 = (Inr (demo_snippet (Some ''id-C'') ''C''), snd ?c3)"
    by (simp add: prod_eq_iff)
  note th = syncWithAPI_partial_failure[OF refl h2 h3 h4 h5 refl]
  have xs: "?xs = [demo_snippet None ''A'', demo_snippet (Some ''5'') ''B'',
                     demo_snippet None ''C'', demo_snippet None ''C'']" by code_simp
  have a0: "apiLog ?w = []" by (simp add: demo_world_def)
  from th have len: "length (getLocalSnippets ?w') = length ?xs" by blast
  from th have y0: "getLocalSnippets ?w' ! 0 = demo_snippet (Some ''id-A'') ''A''" by blast
  from th have y2: "getLocalSnippets ?w' ! 2 = ?xs ! 2" by blast
  from th have y3: "getLocalSnippets ?w' ! 3 = demo_snippet (Some ''id-C'') ''C''" by blast
  from th have "\<forall>i < length ?xs. i \<notin> {0, 2, 3} \<longrightarrow> getLocalSnippets ?w' ! i = ?xs ! i"
    by blast
  then have y1: "getLocalSnippets ?w' ! 1 = ?xs ! 1" by (simp add: xs)
  from th have log: "apiLog ?w' = apiLog ?w @
      [SaveSnippet (?xs ! 0) (Inr (demo_snippet (Some ''id-A'') ''A'')),
       SaveSnippet (?xs ! 2) (Inl (Error ''ECONNREFUSED'')),
       SaveSnippet (?xs ! 3) (Inr (demo_snippet (Some ''id-C'') ''C''))]" by blast
  have "getLocalSnippets ?w' = [demo_snippet (Some ''id-A'') ''A'',
      demo_snippet (Some ''5'') ''B'', demo_snippet None ''C'',
      demo_snippet (Some ''id-C'') ''C'']"
    using len y0 y1 y2 y3
    by (intro nth_equalityI) (auto simp: xs less_Suc_eq numeral_3_eq_3 numeral_2_eq_2)
  with log a0 show ?thesis by (simp add: xs)
qed

lemma failed_creates_Nil:
  "\<forall>ev \<in> set evs. \<exists>s saved. ev = SaveSnippet s (Inr saved) \<Longrightarrow> failed_creates evs = []"
  by (induction evs rule: failed_creates.induct) auto

lemma filter_pending_eq:
  "filter (\<lambda>s. snippet_id s = None \<or> snippet_id s = Some []) xs = filter pending xs"
  by (rule filter_cong) (simp_all add: pending_iff)

lemma syncWithAPI_log:
  assumes "creates env api (filter pending (getLocalSnippets w)) w = (rs, wa)"
  shows "drop (length (apiLog w)) (apiLog (syncWithAPI env api w))
           = map2 SaveSnippet (filter pending (getLocalSnippets w)) rs"
    and "getLocalSnippets (syncWithAPI env api w) = reconcile (getLocalSnippets w) rs"
    and "length rs = length (filter pending (getLocalSnippets w))"
  using creates_frame[OF assms]
  by (simp_all add: syncWithAPI_result[OF assms] update_globalState_fields
      getLocalSnippets_update)

text \<open>
  Claim C3, as amended. \<^verbatim>\<open>syncWithAPI\<close> submits exactly the snippets whose id is absent or
  the empty string, in the order of the sequence. Let it run twice in succession, and
  let every call of the first run that succeeded have returned a snippet with an id
  that is not empty. Then the second run submits exactly the snippets whose call failed
  in the first run, in the same order: a snippet synced by the first run is never
  submitted again, and when every call of the first run succeeded the second run calls
  the remote client zero times.
\<close>

theorem syncWithAPI_retry:
  assumes "w1 = syncWithAPI env api w" and "w2 = syncWithAPI env api w1"
    and "evs1 = drop (length (apiLog w)) (apiLog w1)"
    and "evs2 = drop (length (apiLog w1)) (apiLog w2)"
    and "\<forall>s saved. SaveSnippet s (Inr saved) \<in> set evs1 \<longrightarrow> truthy (snippet_id saved)"
  shows "(\<exists>rs. length rs = length (filter (\<lambda>s. snippet_id s = None \<or> snippet_id s = Some [])
                                      (getLocalSnippets w))
           \<and> evs1 = map2 SaveSnippet
                      (filter (\<lambda>s. snippet_id s = None \<or> snippet_id s = Some [])
                         (getLocalSnippets w)) rs)
     \<and> (\<exists>rs. length rs = length (failed_creates evs1)
           \<and> evs2 = map2 SaveSnippet (failed_creates evs1) rs)
     \<and> ((\<forall>ev \<in> set evs1. \<exists>s saved. ev = SaveSnippet s (Inr saved)) \<longrightarrow> evs2 = [])"
proof -
  let ?xs = "getLocalSnippets w"
  obtain rs1 wa where c1: "creates env api (filter pending ?xs) w = (rs1, wa)"
    by (cases "creates env api (filter pending ?xs) w")
  note l1 = syncWithAPI_log[OF c1, folded assms(1)]
  have e1: "evs1 = map2 SaveSnippet (filter pending ?xs) rs1"
    using l1(1) assms(3) by simp
  have ok: "\<forall>saved. Inr saved \<in> set rs1 \<longrightarrow> \<not> pending saved"
  proof (intro allI impI)
    fix saved assume "Inr saved \<in> set rs1"
    then obtain m where m: "m < length rs1" "rs1 ! m = Inr saved"
      by (auto simp: in_set_conv_nth)
    then have "evs1 ! m = SaveSnippet (filter pending ?xs ! m) (Inr saved)"
      using l1(3) by (simp add: e1)
    moreover have "m < length evs1" using m l1(3) by (simp add: e1)
    ultimately have "SaveSnippet (filter pending ?xs ! m) (Inr saved) \<in> set evs1"
      by (metis nth_mem)
    with assms(5) show "\<not> pending saved" by (auto simp: pending_def)
  qed
  have p1: "filter pending (getLocalSnippets w1) = failed_creates evs1"
    using filter_pending_reconcile[OF l1(3) ok] by (simp add: l1(2) e1)
  obtain rs2 wb where c2: "creates env api (filter pending (getLocalSnippets w1)) w1 = (rs2, wb)"
    by (cases "creates env api (filter pending (getLocalSnippets w1)) w1")
  note l2 = syncWithAPI_log[OF c2, folded assms(2)]
  have e2: "evs2 = map2 SaveSnippet (failed_creates evs1) rs2"
    using l2(1) assms(4) by (simp add: p1)
  have a: "\<exists>rs. length rs = length (filter (\<lambda>s. snippet_id s = None \<or> snippet_id s = Some [])
                                      ?xs)
           \<and> evs1 = map2 SaveSnippet
                      (filter (\<lambda>s. snippet_id s = None \<or> snippet_id s = Some []) ?xs) rs"
    using e1 l1(3) by (auto simp: filter_pending_eq)
  have b: "\<exists>rs. length rs = length (failed_creates evs1)
           \<and> evs2 = map2 SaveSnippet (failed_creates evs1) rs"
    using e2 l2(3) by (auto simp: p1)
  have c: "(\<forall>ev \<in> set evs1. \<exists>s saved. ev = SaveSnippet s (Inr saved)) \<longrightarrow> evs2 = []"
    using e2 by (auto simp: failed_creates_Nil)
  from a b c show ?thesis by blast
qed

theorem syncWithAPI_retry_witness:
  "drop (length (apiLog
           (syncWithAPI (demo_env (\<lambda>t. ''id-'' @ t) (\<lambda>n. False)) demo_api
              (demo_world [demo_snippet None ''A'', demo_snippet (Some ''5'') ''B'',
                           demo_snippet None ''C'']))))
        (apiLog
           (syncWithAPI (demo_env (\<lambda>t. ''id-'' @ t) (\<lambda>n. False)) demo_api
              (syncWithAPI (demo_env (\<lambda>t. ''id-'' @ t) (\<lambda>n. False)) demo_api
                 (demo_world [demo_snippet None ''A'', demo_snippet (Some ''5'') ''B'',
                              demo_snippet None ''C''])))) = []
   \<and> apiLog
        (syncWithAPI (demo_env (\<lambda>t. ''id-'' @ t) (\<lambda>n. False)) demo_api
           (demo_world [demo_snippet None ''A'', demo_snippet (Some ''5'') ''B'',
                        demo_snippet None ''C'']))
      = [SaveSnippet (demo_snippet None ''A'') (Inr (demo_snippet (Some ''id-A'') ''A'')),
         SaveSnippet (demo_snippet None ''C'') (Inr (demo_snippet (Some ''id-C'') ''C''))]"
proof -
  let ?env = "demo_env (\<lambda>t. ''id-'' @ t) (\<lambda>n. False)"
  let ?w = "demo_world [demo_snippet None ''A'', demo_snippet (Some ''5'') ''B'',
                        demo_snippet None ''C'']"
  let ?w1 = "syncWithAPI ?env demo_api ?w"
  let ?w2 = "syncWithAPI ?env demo_api ?w1"
  let ?evs1 = "drop (length (apiLog ?w)) (apiLog ?w1)"
  have e1: "?evs1 =
      [SaveSnippet (demo_snippet None ''A'') (Inr (demo_snippet (Some ''id-A'') ''A'')),
       SaveSnippet (demo_snippet None ''C'') (Inr (demo_snippet (Some ''id-C'') ''C''))]"
    by code_simp
  have h5: "\<forall>s saved. SaveSnippet s (Inr saved) \<in> set ?evs1 \<longrightarrow> truthy (snippet_id saved)"
    unfolding e1 by (auto simp: truthy_def demo_snippet_def)
  have all: "\<forall>ev \<in> set ?evs1. \<exists>s saved. ev = SaveSnippet s (Inr saved)"
    unfolding e1 by simp
  from syncWithAPI_retry[OF refl refl refl refl h5] all
  have "drop (length (apiLog ?w1)) (apiLog ?w2) = []" by blast
  moreover have "apiLog ?w = []" by (simp add: demo_world_def)
  ultimately show ?thesis using e1 by simp
qed

text \<open>
  The claim as it is stated fails for a service that answers a creation with the empty
  string as the id: the only call of the first run succeeds, the stored snippet has an
  id, and the second run selects it and submits it again.
\<close>

theorem syncWithAPI_empty_id_counterexample:
  "apiLog (syncWithAPI (demo_env (\<lambda>t. []) (\<lambda>n. False)) demo_api
             (demo_world [demo_snippet None ''A'']))
     = [SaveSnippet (demo_snippet None ''A'') (Inr (demo_snippet (Some []) ''A''))]
   \<and> apiLog (syncWithAPI (demo_env (\<lambda>t. []) (\<lambda>n. False)) demo_api
        (syncWithAPI (demo_env (\<lambda>t. []) (\<lambda>n. False)) demo_api
             (demo_world [demo_snippet None ''A''])))
     = [SaveSnippet (demo_snippet None ''A'') (Inr (demo_snippet (Some []) ''A'')),
        SaveSnippet (demo_snippet (Some []) ''A'') (Inr (demo_snippet (Some []) ''A''))]
   \<and> snippet_id (demo_snippet (Some []) ''A'') = Some []"
  by code_simp

section \<open>Properties of the delete command\<close>

lemma length_objects: "length (objects xs) = length xs"
  by (simp add: objects_def)

lemma objects_Nil: "objects xs = [] \<longleftrightarrow> xs = []"
  by (simp add: objects_def)

lemma objects_nth: "k < length xs \<Longrightarrow> objects xs ! k = (Stored k, xs ! k)"
  by (simp add: objects_map)

lemma indexOf_objects: "k < length xs \<Longrightarrow> indexOf (objects xs) (Stored k, xs ! k) = Some k"
  by (rule indexOf_coherent) (simp_all add: coherent_objects length_objects objects_nth)

lemma map_snd_splice1:
  "map snd (splice1 (objects xs) (Some k)) = take k xs @ drop (Suc k) xs"
  by (simp add: splice1_def map_snd_objects flip: take_map drop_map)

lemma deleteSnippet_fields:
  assumes "deleteSnippet env api i w = (r, w')"
  shows "globalState w' = globalState w" and "updates w' = updates w"
    and "messages w' = messages w"
    and "apiLog w' = apiLog w @ [DeleteSnippet i (case r of Inl e \<Rightarrow> Some e | Inr u \<Rightarrow> None)]"
    and "getLocalSnippets w' = getLocalSnippets w"
    and "\<And>e. r = Inl e \<Longrightarrow> \<exists>cs. console w' = cs @ [ConsoleError [''API Error:''] e]"
  using assms
  by (auto simp: deleteSnippet_def Let_def console_error_def getLocalSnippets_def
      split: prod.splits sum.splits)

lemma deleteCommand_confirmed:
  assumes "quickPick ui = Some k" and "k < length (getLocalSnippets w)"
    and "confirm ui = Some ''Delete''"
  shows "deleteCommand env api useAPI ui w =
     (let xs = getLocalSnippets w;
          w2 = update_globalState ''snippets'' (take k xs @ drop (Suc k) xs)
                 (showMessage
                    (WarningMessage
                       (''Delete '' @ [CHR 0x22] @ title (xs ! k) @ [CHR 0x22] @ ''?'')) w);
          w3 = (if useAPI \<and> truthy (snippet_id (xs ! k)) then
                  (case deleteSnippet env api (the (snippet_id (xs ! k))) w2 of
                     (Inl error, w') \<Rightarrow>
                       console_error [''Failed to delete from API:''] error w'
                   | (Inr u, w') \<Rightarrow> w')
                else w2)
      in showMessage (InformationMessage (''Deleted: '' @ title (xs ! k))) w3)"
proof -
  from assms(2) have "getLocalSnippets w \<noteq> []" by auto
  with assms show ?thesis
    by (simp add: deleteCommand_def Let_def length_objects objects_nth indexOf_objects
        map_snd_splice1 objects_Nil)
qed

text \<open>
  Claim C7, as amended. When a snippet is picked and its deletion confirmed, the entry
  is removed from the local sequence, by one update of the memento, whatever the remote
  client does. The remote client is called only when \<^verbatim>\<open>useAPI\<close> is true and the id of the
  snippet is truthy, that is, present and not the empty string: then \<^verbatim>\<open>deleteSnippet\<close> is
  called once, with that id, and a failure is written to the console and not shown; the
  messages shown are the confirmation and \<open>Deleted\<close> in every case. A snippet with no id,
  or with the empty string as its id, is deleted with no call of the remote client.
\<close>

theorem deleteCommand_remote:
  assumes "xs = getLocalSnippets w" and "quickPick ui = Some k" and "k < length xs"
    and "confirm ui = Some ''Delete''"
    and "w' = deleteCommand env api useAPI ui w"
  shows "getLocalSnippets w' = take k xs @ drop (Suc k) xs
     \<and> updates w' = updates w @ [(''snippets'', take k xs @ drop (Suc k) xs)]
     \<and> messages w' = messages w @
           [WarningMessage (''Delete '' @ [CHR 0x22] @ title (xs ! k) @ [CHR 0x22] @ ''?''),
            InformationMessage (''Deleted: '' @ title (xs ! k))]
     \<and> (\<not> truthy (snippet_id (xs ! k)) \<or> \<not> useAPI \<longrightarrow>
           apiLog w' = apiLog w \<and> server w' = server w)
     \<and> (truthy (snippet_id (xs ! k)) \<and> useAPI \<longrightarrow>
           (\<exists>r. apiLog w' = apiLog w @ [DeleteSnippet (the (snippet_id (xs ! k))) r]
              \<and> (\<forall>e. r = Some e \<longrightarrow>
                    last (console w') = ConsoleError [''Failed to delete from API:''] e)))"
proof -
  let ?m = "WarningMessage (''Delete '' @ [CHR 0x22] @ title (xs ! k) @ [CHR 0x22] @ ''?'')"
  let ?w2 = "update_globalState ''snippets'' (take k xs @ drop (Suc k) xs) (showMessage ?m w)"
  let ?d = "InformationMessage (''Deleted: '' @ title (xs ! k))"
  note eq = deleteCommand_confirmed[OF assms(2) assms(3)[unfolded assms(1)] assms(4),
      of env api useAPI, folded assms(1) assms(5)]
  show ?thesis
  proof (cases "useAPI \<and> truthy (snippet_id (xs ! k))")
    case False
    then have w': "w' = showMessage ?d ?w2" using eq by (auto simp: Let_def)
    show ?thesis using False
      by (auto simp: w' getLocalSnippets_showMessage getLocalSnippets_update
          showMessage_fields update_globalState_fields)
  next
    case True
    obtain r w3 where d: "deleteSnippet env api (the (snippet_id (xs ! k))) ?w2 = (r, w3)"
      by (cases "deleteSnippet env api (the (snippet_id (xs ! k))) ?w2")
    note fr = deleteSnippet_fields(1-5)[OF d]
    show ?thesis
    proof (cases r)
      case (Inl e)
      then have w': "w' = showMessage ?d (console_error [''Failed to delete from API:''] e w3)"
        using eq True d by (simp add: Let_def)
      show ?thesis using True Inl
        by (simp add: w' getLocalSnippets_showMessage getLocalSnippets_update
            showMessage_fields update_globalState_fields console_error_fields fr)
    next
      case (Inr u)
      then have w': "w' = showMessage ?d w3" using eq True d by (simp add: Let_def)
      show ?thesis using True Inr
        by (simp add: w' getLocalSnippets_showMessage getLocalSnippets_update
            showMessage_fields update_globalState_fields console_error_fields fr)
    qed
  qed
qed

theorem deleteCommand_remote_witness:
  "getLocalSnippets
     (deleteCommand (demo_env (\<lambda>t. ''9'') (\<lambda>n. True)) demo_api True demo_delete_ui
        (demo_world [demo_snippet (Some ''5'') ''B'', demo_snippet None ''A'']))
     = [demo_snippet None ''A'']
   \<and> apiLog
     (deleteCommand (demo_env (\<lambda>t. ''9'') (\<lambda>n. True)) demo_api True demo_delete_ui
        (demo_world [demo_snippet (Some ''5'') ''B'', demo_snippet None ''A'']))
     = [DeleteSnippet ''5'' (Some (Error ''ECONNREFUSED''))]
   \<and> last (console
     (deleteCommand (demo_env (\<lambda>t. ''9'') (\<lambda>n. True)) demo_api True demo_delete_ui
        (demo_world [demo_snippet (Some ''5'') ''B'', demo_snippet None ''A''])))
     = ConsoleError [''Failed to delete from API:''] (Error ''ECONNREFUSED'')
   \<and> apiLog
     (deleteCommand (demo_env (\<lambda>t. ''9'') (\<lambda>n. True)) demo_api True demo_delete_ui
        (demo_world [demo_snippet None ''A'', demo_snippet (Some ''5'') ''B'']))
     = []"
proof -
  let ?env = "demo_env (\<lambda>t. ''9'') (\<lambda>n. True)"
  let ?w = "demo_world [demo_snippet (Some ''5'') ''B'', demo_snippet None ''A'']"
  let ?v = "demo_world [demo_snippet None ''A'', demo_snippet (Some ''5'') ''B'']"
  let ?w' = "deleteCommand ?env demo_api True demo_delete_ui ?w"
  let ?v' = "deleteCommand ?env demo_api True demo_delete_ui ?v"
  have q: "quickPick demo_delete_ui = Some 0" by (simp add: demo_delete_ui_def)
  have c: "confirm demo_delete_ui = Some ''Delete''" by (simp add: demo_delete_ui_def)
  have k: "0 < length (getLocalSnippets ?w)" by code_simp
  have k': "0 < length (getLocalSnippets ?v)" by code_simp
  have g: "getLocalSnippets ?w = [demo_snippet (Some ''5'') ''B'', demo_snippet None ''A'']"
    by code_simp
  have g': "getLocalSnippets ?v = [demo_snippet None ''A'', demo_snippet (Some ''5'') ''B'']"
    by code_simp
  have a0: "apiLog ?w = []" "apiLog ?v = []" by (simp_all add: demo_world_def)
  have t: "truthy (snippet_id (getLocalSnippets ?w ! 0))" by code_simp
  have f: "\<not> truthy (snippet_id (getLocalSnippets ?v ! 0))" by code_simp
  have i: "the (snippet_id (getLocalSnippets ?w ! 0)) = ''5''" by code_simp
  note th = deleteCommand_remote[OF refl q k c refl, of ?env demo_api True]
  note th' = deleteCommand_remote[OF refl q k' c refl, of ?env demo_api True]
  from th g have 1: "getLocalSnippets ?w' = [demo_snippet None ''A'']" by simp
  from th t i a0 obtain r where
    r: "apiLog ?w' = [DeleteSnippet ''5'' r]"
       "\<forall>e. r = Some e \<longrightarrow> last (console ?w') = ConsoleError [''Failed to delete from API:''] e"
    by auto
  have 2: "apiLog ?w' = [DeleteSnippet ''5'' (Some (Error ''ECONNREFUSED''))]" by code_simp
  with r have 3: "last (console ?w') =
      ConsoleError [''Failed to delete from API:''] (Error ''ECONNREFUSED'')" by simp
  from th' f a0 have 4: "apiLog ?v' = []" by simp
  from 1 2 3 4 show ?thesis by simp
qed

text \<open>
  The claim as it is stated, for every snippet with an id, fails for the id that is the
  empty string: with \<^verbatim>\<open>useAPI\<close> true the snippet is removed from the local sequence and the
  remote client is not called.
\<close>

theorem deleteCommand_empty_id_counterexample:
  "snippet_id (demo_snippet (Some []) ''X'') = Some []
   \<and> getLocalSnippets
     (deleteCommand (demo_env (\<lambda>t. ''9'') (\<lambda>n. False)) demo_api True demo_delete_ui
        (demo_world [demo_snippet (Some []) ''X''])) = []
   \<and> apiLog
     (deleteCommand (demo_env (\<lambda>t. ''9'') (\<lambda>n. False)) demo_api True demo_delete_ui
        (demo_world [demo_snippet (Some []) ''X''])) = []"
  by code_simp

end
